theory Spec2Isabelle
  imports Complex_Main "HOL-Library.Char_ord" "HOL-Library.List_Lexorder"
begin

section \<open>SPARE scores: training and inference pipeline\<close>

text \<open>
  A shallow embedding of \<^verbatim>\<open>spare_scores/spare_scores.py\<close>. Floating-point numbers are
  modelled as exact reals; not-a-number is a value of its own wherever the source can
  produce or test it. Rounding, overflow and infinities are outside the model.
\<close>

subsection \<open>Python exceptions and numeric helpers\<close>

datatype exc = ValueError | KeyError | IndexError | TypeError | NameError | OSError

text \<open>Python's \<^verbatim>\<open>int(x)\<close> on a float truncates toward zero.\<close>

definition py_trunc :: "real \<Rightarrow> int" where
  "py_trunc x = (if 0 \<le> x then \<lfloor>x\<rfloor> else \<lceil>x\<rceil>)"

text \<open>
  \<^verbatim>\<open>np.linspace(start, stop, num)\<close> with the default \<^verbatim>\<open>endpoint=True\<close>: a negative
  \<^verbatim>\<open>num\<close> raises, \<^verbatim>\<open>num = 1\<close> gives the start alone, otherwise \<^verbatim>\<open>num\<close> samples with
  step \<^verbatim>\<open>(stop - start) / (num - 1)\<close>.
\<close>

definition linspace :: "real \<Rightarrow> real \<Rightarrow> int \<Rightarrow> exc + real list" where
  "linspace start stop num =
     (if num < 0 then Inl ValueError
      else if num = 1 then Inr [start]
      else Inr (map (\<lambda>i. start + real i * ((stop - start) / real_of_int (num - 1)))
                    [0 ..< nat num]))"

text \<open>
  \<^verbatim>\<open>_expspace(span)\<close>:
  \<^verbatim>\<open>np.exp(np.linspace(span[0], span[1], num=int(span[1])-int(span[0])+1))\<close>.
\<close>

definition expspace :: "real \<times> real \<Rightarrow> exc + real list" where
  "expspace sp =
     (case linspace (fst sp) (snd sp) (py_trunc (snd sp) - py_trunc (fst sp) + 1) of
        Inl e \<Rightarrow> Inl e
      | Inr xs \<Rightarrow> Inr (map exp xs))"

subsection \<open>Tables\<close>

text \<open>
  A dataframe column label is a string or an integer (both occur in
  \<^verbatim>\<open>spare_test\<close>). A cell is a number, a string or not-a-number. A column carries the
  name of its pandas dtype, which the source compares with \<^verbatim>\<open>'int64'\<close>,
  \<^verbatim>\<open>'float64'\<close> and \<^verbatim>\<open>np.object\<close>. A frame has a row count (\<^verbatim>\<open>len(df.index)\<close>) and
  its labelled columns in order. Reading a label that occurs twice is outside the model
  (pandas returns a sub-frame there): \<open>get_col\<close> reads the first column of that label.
\<close>

datatype colname = CStr string | CInt int

datatype val = Num real | Str string | NaN

record column =
  dtype :: string
  cells :: "val list"

record frame =
  nrows :: nat
  columns :: "(colname \<times> column) list"

definition labels :: "frame \<Rightarrow> colname list" where
  "labels df = map fst (columns df)"

definition get_col :: "frame \<Rightarrow> colname \<Rightarrow> column option" where
  "get_col df c = map_of (columns df) c"

text \<open>
  \<^verbatim>\<open>df[c] = values\<close>: an existing label keeps its position, a new one is appended.
\<close>

definition set_col :: "frame \<Rightarrow> colname \<Rightarrow> column \<Rightarrow> frame" where
  "set_col df c col =
     (if c \<in> set (labels df)
      then df\<lparr>columns := map (\<lambda>(k, v). if k = c then (k, col) else (k, v)) (columns df)\<rparr>
      else df\<lparr>columns := columns df @ [(c, col)]\<rparr>)"

text \<open>\<^verbatim>\<open>Series.unique()\<close>: the distinct values in first-seen order, not-a-number included.\<close>

definition unique :: "'a list \<Rightarrow> 'a list" where
  "unique xs = rev (remdups (rev xs))"

text \<open>\<^verbatim>\<open>Series.value_counts()\<close>: the count of every distinct value but not-a-number.\<close>

definition value_counts :: "val list \<Rightarrow> nat list" where
  "value_counts xs = map (count_list xs) (filter (\<lambda>v. v \<noteq> NaN) (unique xs))"

text \<open>\<^verbatim>\<open>np.min\<close> of an array; it raises on an empty one.\<close>

fun np_min :: "'a::linorder list \<Rightarrow> exc + 'a" where
  "np_min [] = Inl ValueError"
| "np_min (x # xs) = Inr (fold min xs x)"

fun np_max :: "'a::linorder list \<Rightarrow> exc + 'a" where
  "np_max [] = Inl ValueError"
| "np_max (x # xs) = Inr (fold max xs x)"

text \<open>
  \<^verbatim>\<open>x in array\<close> compares with \<^verbatim>\<open>==\<close>, under which not-a-number equals nothing.
\<close>

definition py_in :: "val \<Rightarrow> val list \<Rightarrow> bool" where
  "py_in x xs = (x \<noteq> NaN \<and> x \<in> set xs)"

text \<open>
  Elementwise \<^verbatim>\<open>+\<close> of two series: numbers add, strings concatenate, a missing operand
  gives a missing result, and a number with a string raises.
\<close>

fun val_add :: "val \<Rightarrow> val \<Rightarrow> exc + val" where
  "val_add (Num a) (Num b) = Inr (Num (a + b))"
| "val_add (Str a) (Str b) = Inr (Str (a @ b))"
| "val_add NaN _ = Inr NaN"
| "val_add _ NaN = Inr NaN"
| "val_add _ _ = Inl TypeError"

fun series_add :: "val list \<Rightarrow> val list \<Rightarrow> exc + val list" where
  "series_add (x # xs) (y # ys) =
     (case val_add x y of
        Inl e \<Rightarrow> Inl e
      | Inr v \<Rightarrow> (case series_add xs ys of Inl e \<Rightarrow> Inl e | Inr vs \<Rightarrow> Inr (v # vs)))"
| "series_add _ _ = Inr []"

text \<open>\<^verbatim>\<open>np.sum(s.duplicated()) > 0\<close>: some value occurs twice.\<close>

definition has_duplicates :: "'a list \<Rightarrow> bool" where
  "has_duplicates xs = (\<not> distinct xs)"

subsection \<open>Log messages and failures\<close>

text \<open>
  One constructor per \<^verbatim>\<open>logging\<close> call of the source. A call of \<^verbatim>\<open>logging.error\<close> is always
  \<^verbatim>\<open>return logging.error(...)\<close>: the function ends and returns \<^verbatim>\<open>None\<close>. That is the result
  \<open>Inl (Failed m)\<close>; an exception that leaves the function is \<open>Inl (Raised e)\<close>. The log
  lists the messages below error level, in order.
\<close>

datatype logmsg =
    NotAllPredictors
  | MissingPositiveGroup
  | InvalidPositiveGroup
  | InsufficientGroupSize
  | GroupMayBeTooSmall
  | DuplicateParticipants
  | NonNumericTarget
  | InsufficientSampleSize
  | SampleMayBeTooSmall
  | PosGroupIgnored
  | NoVariance
  | TargetInPredictors
  | InvalidPredictorRows
  | MissingPredictors "string list"
  | RoiNamesChanged colname string
  | OutsideAgeRange
  | InvalidPredictorValues
  | MatchingTrainingIds nat
  | UnknownCategoricalValue string "val list"

datatype failure = Failed logmsg | Raised exc

datatype spare_type = Classification | Regression

subsection \<open>Model-type detection (\<^verbatim>\<open>spare_train\<close>, "Determine SPARE type")\<close>

definition classification_checks ::
  "frame \<Rightarrow> column \<Rightarrow> val \<Rightarrow> logmsg list \<times> (failure + spare_type \<times> val list)" where
  "classification_checks df tgt pos_group =
     (if pos_group = Str []
      then ([], Inl (Failed MissingPositiveGroup))
      else if \<not> py_in pos_group (unique (cells tgt))
      then ([], Inl (Failed InvalidPositiveGroup))
      else (case np_min (value_counts (cells tgt)) of
              Inl e \<Rightarrow> ([], Inl (Raised e))
            | Inr m \<Rightarrow>
                if m < 10 then ([], Inl (Failed InsufficientGroupSize))
                else
                  (let w = (if m < 100 then [GroupMayBeTooSmall] else []) in
                   case get_col df (CStr ''PTID'') of
                     None \<Rightarrow> (w, Inl (Raised KeyError))
                   | Some pt \<Rightarrow>
                       (case series_add (cells pt) (cells tgt) of
                          Inl e \<Rightarrow> (w, Inl (Raised e))
                        | Inr s \<Rightarrow>
                            (w @ (if has_duplicates s then [DuplicateParticipants] else []),
                             Inr (Classification,
                                  filter (\<lambda>a. a \<noteq> pos_group) (unique (cells tgt))
                                    @ [pos_group]))))))"

definition regression_checks ::
  "frame \<Rightarrow> column \<Rightarrow> val \<Rightarrow> logmsg list \<times> (failure + spare_type \<times> val list)" where
  "regression_checks df tgt pos_group =
     (if dtype tgt \<notin> {''int64'', ''float64''}
      then ([], Inl (Failed NonNumericTarget))
      else if nrows df < 10
      then ([], Inl (Failed InsufficientSampleSize))
      else
        (let w = (if nrows df < 100 then [SampleMayBeTooSmall] else []) in
         case get_col df (CStr ''PTID'') of
           None \<Rightarrow> (w, Inl (Raised KeyError))
         | Some pt \<Rightarrow>
             (w @ (if has_duplicates (cells pt) then [DuplicateParticipants] else [])
                @ (if pos_group \<noteq> Str [] then [PosGroupIgnored] else []),
              Inr (Regression, []))))"

text \<open>
  Lines 32 to 58. The second component of a success is \<^verbatim>\<open>groups_to_classify\<close>, which
  the regression branch leaves unbound (the empty list here; it is never read there).
\<close>

definition determine_type ::
  "frame \<Rightarrow> string \<Rightarrow> val \<Rightarrow> logmsg list \<times> (failure + spare_type \<times> val list)" where
  "determine_type df to_predict pos_group =
     (case get_col df (CStr to_predict) of
        None \<Rightarrow> ([], Inl (Raised KeyError))
      | Some tgt \<Rightarrow>
          if length (unique (cells tgt)) = 2 then classification_checks df tgt pos_group
          else if length (unique (cells tgt)) > 2 then regression_checks df tgt pos_group
          else ([], Inl (Failed NoVariance)))"

subsection \<open>The fitted model and its metadata\<close>

text \<open>
  A decision value is a float that may be infinite or not-a-number. Finite values are
  exact reals; a real zero divisor stands for \<^verbatim>\<open>+0.0\<close>.
\<close>

datatype npfloat = Fin real | PosInf | NegInf | Nan

text \<open>
  The scaler and the support-vector machine of one fold are external: the scaler's
  \<^verbatim>\<open>transform\<close> and the machine's \<^verbatim>\<open>decision_function\<close> are taken row by row, as
  functions that may raise.
\<close>

record svm =
  coef :: "real list"
  intercept :: real
  decision_function :: "npfloat list \<Rightarrow> exc + npfloat"

record mdl =
  scaler :: "(val list \<Rightarrow> exc + npfloat list) list"
  svms :: "svm list"
  bias_int :: "real list"
  bias_slope :: "real list"
  cv_folds :: "(nat list \<times> nat list) list"

type_synonym catmap = "(val \<times> val) list"

record metaData =
  md_spare_type :: spare_type
  md_kernel :: string
  md_n :: nat
  md_age_range :: "val \<times> val"
  md_to_predict :: string
  md_predictors :: "string list"
  md_categorical_var_map :: "(string \<times> catmap option) list option"
  md_pos_group :: "val option"
  md_perf :: "real list"
  md_params :: "(string \<times> real list) list"
  md_cv_results :: frame

subsection \<open>Row filtering and categorical encoding (\<^verbatim>\<open>spare_train\<close>)\<close>

definition bind_exc :: "'e + 'a \<Rightarrow> ('a \<Rightarrow> 'e + 'b) \<Rightarrow> 'e + 'b" where
  "bind_exc x f = (case x of Inl e \<Rightarrow> Inl e | Inr v \<Rightarrow> f v)"

text \<open>\<^verbatim>\<open>df[names]\<close>: the named columns, or \<^verbatim>\<open>KeyError\<close> when a name is no label.\<close>

fun select_cols :: "frame \<Rightarrow> colname list \<Rightarrow> exc + (colname \<times> column) list" where
  "select_cols df [] = Inr []"
| "select_cols df (c # cs) =
     (case get_col df c of
        None \<Rightarrow> Inl KeyError
      | Some col \<Rightarrow> bind_exc (select_cols df cs) (\<lambda>r. Inr ((c, col) # r)))"

text \<open>\<^verbatim>\<open>np.sum(np.sum(pd.isna(X))) > 0\<close>\<close>

definition any_missing :: "(colname \<times> column) list \<Rightarrow> bool" where
  "any_missing cs = list_ex (\<lambda>(k, c). NaN \<in> set (cells c)) cs"

text \<open>\<^verbatim>\<open>np.sum(pd.isna(X), axis=1) == 0\<close>: per row, no selected cell is missing.\<close>

definition complete_rows :: "nat \<Rightarrow> (colname \<times> column) list \<Rightarrow> bool list" where
  "complete_rows n cs =
     foldr (\<lambda>(k, c) m. map2 (\<lambda>v b. v \<noteq> NaN \<and> b) (cells c) m) cs (replicate n True)"

definition keep_cells :: "bool list \<Rightarrow> 'a list \<Rightarrow> 'a list" where
  "keep_cells keep xs = map fst (filter snd (zip xs keep))"

text \<open>\<^verbatim>\<open>df.loc[rows].reset_index(drop=True)\<close>: a new frame with the kept rows.\<close>

definition filter_rows :: "frame \<Rightarrow> bool list \<Rightarrow> frame" where
  "filter_rows df keep =
     \<lparr>nrows = length (filter id keep),
      columns = map (\<lambda>(k, c). (k, c\<lparr>cells := keep_cells keep (cells c)\<rparr>)) (columns df)\<rparr>"

text \<open>\<^verbatim>\<open>Series.map(d)\<close>: the code of each value, not-a-number for a value that is no key.\<close>

definition series_map :: "catmap \<Rightarrow> column \<Rightarrow> column" where
  "series_map m c =
     (let vs = map (\<lambda>v. case map_of m v of Some code \<Rightarrow> code | None \<Rightarrow> NaN) (cells c)
      in \<lparr>dtype = (if NaN \<in> set vs then ''float64'' else ''int64''), cells = vs\<rparr>)"

definition dict_set :: "('k \<times> 'v) list \<Rightarrow> 'k \<Rightarrow> 'v \<Rightarrow> ('k \<times> 'v) list" where
  "dict_set d k v =
     (if k \<in> set (map fst d) then map (\<lambda>(k', v'). if k' = k then (k', v) else (k', v')) d
      else d @ [(k, v)])"

text \<open>
  Lines 77 and 78: the predictors whose column has dtype \<^verbatim>\<open>object\<close>, in predictor order.
\<close>

definition var_categorical :: "frame \<Rightarrow> string list \<Rightarrow> exc + string list" where
  "var_categorical df predictors =
     bind_exc (select_cols df (map CStr predictors))
       (\<lambda>cs. Inr (map fst (filter (\<lambda>(p, (k, c)). dtype c = ''object'') (zip predictors cs))))"

text \<open>
  One turn of the loop of lines 80 to 83: a column with exactly two distinct values gets
  the map \<^verbatim>\<open>{unique[0]: 1, unique[1]: 2}\<close> and is overwritten by its codes.
\<close>

definition encode_var ::
  "frame \<times> (string \<times> catmap option) list \<Rightarrow> string
   \<Rightarrow> exc + frame \<times> (string \<times> catmap option) list" where
  "encode_var st var =
     (case get_col (fst st) (CStr var) of
        None \<Rightarrow> Inl KeyError
      | Some c \<Rightarrow>
          (case unique (cells c) of
             [u0, u1] \<Rightarrow>
               (let m = [(u0, Num 1), (u1, Num 2)]
                in Inr (set_col (fst st) (CStr var) (series_map m c),
                        dict_set (snd st) var (Some m)))
           | _ \<Rightarrow> Inr st))"

fun encode_vars ::
  "frame \<times> (string \<times> catmap option) list \<Rightarrow> string list
   \<Rightarrow> exc + frame \<times> (string \<times> catmap option) list" where
  "encode_vars st [] = Inr st"
| "encode_vars st (var # vars) = bind_exc (encode_var st var) (\<lambda>st'. encode_vars st' vars)"

text \<open>
  Lines 76 to 83: the map starts as \<^verbatim>\<open>dict(zip(var_categorical, [None]*len(...)))\<close>.
\<close>

definition convert_categorical_train ::
  "frame \<Rightarrow> string list \<Rightarrow> exc + frame \<times> (string \<times> catmap option) list" where
  "convert_categorical_train df predictors =
     bind_exc (var_categorical df predictors)
       (\<lambda>vars. encode_vars (df, fold (\<lambda>v d. dict_set d v None) vars []) vars)"

subsection \<open>Hyperparameter grids and the ensemble fit (\<^verbatim>\<open>spare_train\<close>)\<close>

text \<open>
  \<^verbatim>\<open>run_SVC\<close>, \<^verbatim>\<open>run_SVR\<close> (module \<^verbatim>\<open>svm\<close>), \<^verbatim>\<open>DataFrame.sample\<close> and the file
  system are external. A call of \<^verbatim>\<open>run_SVC\<close> or \<^verbatim>\<open>run_SVR\<close> is recorded with the
  arguments the source passes; an argument it leaves to the callee's default is \<open>None\<close>.
  The callee returns the out-of-fold predictions, the ensemble, the performance list and
  the parameter table.
\<close>

type_synonym param_grid = "(string \<times> real list) list"

record svm_args =
  a_data :: frame
  a_predictors :: "string list"
  a_to_predict :: string
  a_groups :: "val list option"
  a_param_grid :: param_grid
  a_kernel :: "string option"
  a_n_repeats :: "nat option"
  a_verbose :: "nat option"

record svm_out =
  o_predicted :: "val list"
  o_mdl :: mdl
  o_perf :: "real list"
  o_params :: param_grid

record ext =
  run_SVC :: "svm_args \<Rightarrow> exc + svm_out"
  run_SVR :: "svm_args \<Rightarrow> exc + svm_out"
  sample :: "frame \<Rightarrow> nat \<Rightarrow> nat \<Rightarrow> exc + frame"
  can_write :: "string \<Rightarrow> bool"

text \<open>
  The grid each branch starts from (lines 87 to 91 and 102). A classification kernel
  other than \<^verbatim>\<open>'linear'\<close> and \<^verbatim>\<open>'rbf'\<close> leaves \<^verbatim>\<open>param_grid\<close> unbound: \<open>None\<close>.
\<close>

definition coarse_grid :: "spare_type \<Rightarrow> string \<Rightarrow> exc + param_grid option" where
  "coarse_grid ty kern =
     (case ty of
        Classification \<Rightarrow>
          if kern = ''linear''
          then bind_exc (expspace (-9, 5)) (\<lambda>c. Inr (Some [(''C'', c)]))
          else if kern = ''rbf''
          then bind_exc (expspace (-9, 5)) (\<lambda>c.
               bind_exc (expspace (-5, 5)) (\<lambda>g. Inr (Some [(''C'', c), (''gamma'', g)])))
          else Inr None
      | Regression \<Rightarrow>
          bind_exc (expspace (-5, 5)) (\<lambda>c.
          bind_exc (expspace (-5, 5)) (\<lambda>e. Inr (Some [(''C'', c), (''epsilon'', e)]))))"

text \<open>
  Lines 95 and 96 (and 106 and 107): every parameter's grid becomes
  \<^verbatim>\<open>_expspace([np.min(params[par + '_optimal']), np.max(params[par + '_optimal'])])\<close>.
\<close>

fun refine_grid :: "param_grid \<Rightarrow> param_grid \<Rightarrow> exc + param_grid" where
  "refine_grid params [] = Inr []"
| "refine_grid params ((par, g) # rest) =
     (case map_of params (par @ ''_optimal'') of
        None \<Rightarrow> Inl KeyError
      | Some opt \<Rightarrow>
          bind_exc (np_min opt) (\<lambda>lo.
          bind_exc (np_max opt) (\<lambda>hi.
          bind_exc (expspace (lo, hi)) (\<lambda>g'.
          bind_exc (refine_grid params rest) (\<lambda>r. Inr ((par, g') # r))))))"

definition svm_call ::
  "ext \<Rightarrow> spare_type \<Rightarrow> frame \<Rightarrow> string list \<Rightarrow> string \<Rightarrow> val list \<Rightarrow> string
   \<Rightarrow> param_grid \<Rightarrow> nat option \<Rightarrow> nat option \<Rightarrow> exc + svm_out" where
  "svm_call x ty df predictors to_predict groups kern grid n_repeats verbose =
     (case ty of
        Classification \<Rightarrow>
          run_SVC x \<lparr>a_data = df, a_predictors = predictors, a_to_predict = to_predict,
                     a_groups = Some groups, a_param_grid = grid, a_kernel = Some kern,
                     a_n_repeats = n_repeats, a_verbose = verbose\<rparr>
      | Regression \<Rightarrow>
          run_SVR x \<lparr>a_data = df, a_predictors = predictors, a_to_predict = to_predict,
                     a_groups = None, a_param_grid = grid, a_kernel = None,
                     a_n_repeats = n_repeats, a_verbose = verbose\<rparr>)"

text \<open>
  Lines 92 to 96 and 103 to 107: above 1000 rows, a first fit on
  \<^verbatim>\<open>df.sample(n=500, random_state=2022).reset_index(drop=True)\<close> with \<^verbatim>\<open>n_repeats=1\<close> and
  \<^verbatim>\<open>verbose=0\<close>, whose parameter table refines the grid.
\<close>

definition search_grid ::
  "ext \<Rightarrow> spare_type \<Rightarrow> frame \<Rightarrow> string list \<Rightarrow> string \<Rightarrow> val list \<Rightarrow> string
   \<Rightarrow> exc + param_grid" where
  "search_grid x ty df predictors to_predict groups kern =
     bind_exc (coarse_grid ty kern) (\<lambda>g0.
       if nrows df > 1000 then
         bind_exc (sample x df 500 2022) (\<lambda>sub.
           case g0 of
             None \<Rightarrow> Inl NameError
           | Some g \<Rightarrow>
               bind_exc (svm_call x ty sub predictors to_predict groups kern g
                           (Some 1) (Some 0))
                 (\<lambda>out. refine_grid (o_params out) g))
       else (case g0 of None \<Rightarrow> Inl NameError | Some g \<Rightarrow> Inr g))"

text \<open>Lines 86 to 109 but for the assignments: the grid search, then the full fit.\<close>

definition fit ::
  "ext \<Rightarrow> spare_type \<Rightarrow> frame \<Rightarrow> string list \<Rightarrow> string \<Rightarrow> val list \<Rightarrow> string
   \<Rightarrow> exc + svm_out" where
  "fit x ty df predictors to_predict groups kern =
     bind_exc (search_grid x ty df predictors to_predict groups kern)
       (\<lambda>grid. svm_call x ty df predictors to_predict groups kern grid None None)"

subsection \<open>\<^verbatim>\<open>spare_train\<close>\<close>

text \<open>
  The caller passes references: the dataframe and the predictor list are objects of a
  store, and \<^verbatim>\<open>spare_train\<close> reads and writes them through their addresses. A new
  object (the filtered copy of line 65) is allocated at the end of the store.
\<close>

datatype obj = ListObj "string list" | FrameObj frame

record train_out =
  t_store :: "obj list"
  t_log :: "logmsg list"
  t_saved :: "(string \<times> mdl \<times> metaData) option"
  t_result :: "failure + mdl \<times> metaData"

definition load :: "obj list \<Rightarrow> nat \<Rightarrow> obj option" where
  "load st r = (if r < length st then Some (st ! r) else None)"

definition stop :: "obj list \<Rightarrow> logmsg list \<Rightarrow> failure \<Rightarrow> train_out" where
  "stop st lg f = \<lparr>t_store = st, t_log = lg, t_saved = None, t_result = Inl f\<rparr>"

text \<open>
  \<^verbatim>\<open>np.min\<close> and \<^verbatim>\<open>np.max\<close> of a series skip missing values and give not-a-number when
  nothing is left; \<^verbatim>\<open>np.floor\<close> of the pair raises when a string is among the values.
\<close>

definition numbers :: "val list \<Rightarrow> real list" where
  "numbers xs = concat (map (\<lambda>v. case v of Num r \<Rightarrow> [r] | _ \<Rightarrow> []) xs)"

definition is_str :: "val \<Rightarrow> bool" where
  "is_str v = (case v of Str s \<Rightarrow> True | _ \<Rightarrow> False)"

definition age_range :: "val list \<Rightarrow> exc + val \<times> val" where
  "age_range xs =
     (if list_ex is_str xs then Inl TypeError
      else (case numbers xs of
              [] \<Rightarrow> Inr (NaN, NaN)
            | r # rs \<Rightarrow>
                Inr (Num (of_int \<lfloor>fold min rs r\<rfloor>), Num (of_int \<lfloor>fold max rs r\<rfloor>))))"

definition spare_type_name :: "spare_type \<Rightarrow> string" where
  "spare_type_name ty = (case ty of Classification \<Rightarrow> ''classification''
                                  | Regression \<Rightarrow> ''regression'')"

text \<open>Lines 114 to 117: the path of the saved model.\<close>

definition mdl_file :: "string \<Rightarrow> string \<Rightarrow> spare_type \<Rightarrow> string \<Rightarrow> string" where
  "mdl_file out_path mdl_name ty to_predict =
     out_path @ ''/mdl_''
       @ (if mdl_name = [] then
            ''SPARE_'' @ spare_type_name ty @ ''_''
              @ map (\<lambda>c. if c = CHR ''.'' then CHR ''_'' else c) to_predict
          else mdl_name)
       @ ''.pkl.gz''"

text \<open>
  Lines 68 to 120, after the filters: \<open>cur\<close> is the address the local name \<^verbatim>\<open>df\<close> is
  bound to, \<open>df\<close> the frame stored there.
\<close>

definition train_model ::
  "ext \<Rightarrow> obj list \<Rightarrow> logmsg list \<Rightarrow> nat \<Rightarrow> frame \<Rightarrow> string list \<Rightarrow> string \<Rightarrow> val
   \<Rightarrow> spare_type \<Rightarrow> val list \<Rightarrow> string \<Rightarrow> bool \<Rightarrow> string \<Rightarrow> string \<Rightarrow> train_out" where
  "train_model x st lg cur df predictors to_predict pos_group ty groups kern
     save_mdl out_path mdl_name =
     (case get_col df (CStr ''Age'') of
        None \<Rightarrow> stop st lg (Raised KeyError)
      | Some age \<Rightarrow>
     (case age_range (cells age) of
        Inl e \<Rightarrow> stop st lg (Raised e)
      | Inr ages \<Rightarrow>
     (case convert_categorical_train df predictors of
        Inl e \<Rightarrow> stop st lg (Raised e)
      | Inr (df1, cmap) \<Rightarrow>
     (let st1 = st[cur := FrameObj df1] in
      case fit x ty df1 predictors to_predict groups kern of
        Inl e \<Rightarrow> stop st1 lg (Raised e)
      | Inr out \<Rightarrow>
          if length (o_predicted out) \<noteq> nrows df1 then stop st1 lg (Raised ValueError)
          else
     (let df2 = set_col df1 (CStr ''predicted'')
                  \<lparr>dtype = ''float64'', cells = o_predicted out\<rparr>;
          st2 = st1[cur := FrameObj df2]
      in
      case select_cols df2
             (unique (map CStr [''PTID'', ''Age'', ''Sex'', to_predict, ''predicted''])) of
        Inl e \<Rightarrow> stop st2 lg (Raised e)
      | Inr cv \<Rightarrow>
     (let md = \<lparr>md_spare_type = ty, md_kernel = kern, md_n = nrows df,
                md_age_range = ages, md_to_predict = to_predict,
                md_predictors = predictors, md_categorical_var_map = Some cmap,
                md_pos_group = (if ty = Classification \<and> kern = ''linear''
                                then Some pos_group else None),
                md_perf = o_perf out, md_params = o_params out,
                md_cv_results = \<lparr>nrows = nrows df2, columns = cv\<rparr>\<rparr>
      in
      if save_mdl then
        (if can_write x (mdl_file out_path mdl_name ty to_predict)
         then \<lparr>t_store = st2, t_log = lg,
               t_saved = Some (mdl_file out_path mdl_name ty to_predict, o_mdl out, md),
               t_result = Inr (o_mdl out, md)\<rparr>
         else stop st2 lg (Raised OSError))
      else \<lparr>t_store = st2, t_log = lg, t_saved = None,
             t_result = Inr (o_mdl out, md)\<rparr>))))))"

text \<open>
  Lines 60 to 65: the target is removed from the caller's own list
  (\<^verbatim>\<open>predictors.remove\<close> deletes the first occurrence), and rows with a missing
  predictor are dropped into a new frame, to which \<^verbatim>\<open>df\<close> is rebound.
\<close>

definition train_filtered ::
  "ext \<Rightarrow> obj list \<Rightarrow> logmsg list \<Rightarrow> nat \<Rightarrow> nat \<Rightarrow> frame \<Rightarrow> string list \<Rightarrow> string
   \<Rightarrow> val \<Rightarrow> spare_type \<Rightarrow> val list \<Rightarrow> string \<Rightarrow> bool \<Rightarrow> string \<Rightarrow> string
   \<Rightarrow> train_out" where
  "train_filtered x st lg df_ref pred_ref df predictors to_predict pos_group ty groups kern
     save_mdl out_path mdl_name =
     (let hit = (to_predict \<in> set predictors);
          predictors1 = (if hit then remove1 to_predict predictors else predictors);
          st1 = (if hit then st[pred_ref := ListObj predictors1] else st);
          lg1 = (if hit then lg @ [TargetInPredictors] else lg)
      in
      case select_cols df (map CStr predictors1) of
        Inl e \<Rightarrow> stop st1 lg1 (Raised e)
      | Inr pcs \<Rightarrow>
          if any_missing pcs then
            train_model x (st1 @ [FrameObj (filter_rows df (complete_rows (nrows df) pcs))])
              (lg1 @ [InvalidPredictorRows]) (length st1)
              (filter_rows df (complete_rows (nrows df) pcs))
              predictors1 to_predict pos_group ty groups kern save_mdl out_path mdl_name
          else
            train_model x st1 lg1 df_ref df
              predictors1 to_predict pos_group ty groups kern save_mdl out_path mdl_name)"

text \<open>
  The whole function. An argument that is no dataframe, or no list, raises.
\<close>

definition spare_train ::
  "ext \<Rightarrow> obj list \<Rightarrow> nat \<Rightarrow> nat \<Rightarrow> string \<Rightarrow> val \<Rightarrow> string \<Rightarrow> bool \<Rightarrow> string
   \<Rightarrow> string \<Rightarrow> train_out" where
  "spare_train x st df_ref pred_ref to_predict pos_group kern save_mdl out_path mdl_name =
     (case (load st df_ref, load st pred_ref) of
        (Some (FrameObj df), Some (ListObj predictors)) \<Rightarrow>
          if \<not> set (map CStr predictors) \<subseteq> set (labels df)
          then stop st [] (Failed NotAllPredictors)
          else (case determine_type df to_predict pos_group of
                  (lg, Inl f) \<Rightarrow> stop st lg f
                | (lg, Inr (ty, groups)) \<Rightarrow>
                    train_filtered x st lg df_ref pred_ref df predictors to_predict
                      pos_group ty groups kern save_mdl out_path mdl_name)
      | _ \<Rightarrow> stop st [] (Raised TypeError))"

subsection \<open>Predictor reconciliation (\<^verbatim>\<open>spare_test\<close>, lines 133 to 150)\<close>

text \<open>
  \<^verbatim>\<open>a.split('_')[-1]\<close>: what follows the last underscore (all of \<open>a\<close> when it has none).
\<close>

definition last_part :: "char \<Rightarrow> string \<Rightarrow> string" where
  "last_part sep a = rev (takeWhile (\<lambda>c. c \<noteq> sep) (rev a))"

text \<open>
  \<^verbatim>\<open>int(s)\<close> on a string: surrounding whitespace is dropped, one sign is allowed, and
  at least one decimal digit must follow; anything else raises \<^verbatim>\<open>ValueError\<close> (\<open>None\<close>).
  Strings are byte strings here: digits and spaces beyond ASCII are not recognised. An
  underscore between digits cannot occur in what follows the last underscore.
\<close>

definition is_space :: "char \<Rightarrow> bool" where
  "is_space c = ((of_char c :: nat) \<in> {9, 10, 11, 12, 13, 28, 29, 30, 31, 32})"

definition is_digit :: "char \<Rightarrow> bool" where
  "is_digit c = (48 \<le> (of_char c :: nat) \<and> (of_char c :: nat) \<le> 57)"

definition strip :: "string \<Rightarrow> string" where
  "strip s = rev (dropWhile is_space (rev (dropWhile is_space s)))"

definition digits_value :: "string \<Rightarrow> int" where
  "digits_value s = foldl (\<lambda>n c. 10 * n + (int (of_char c) - 48)) 0 s"

definition py_int :: "string \<Rightarrow> int option" where
  "py_int s =
     (let t = strip s;
          body = (case t of c # r \<Rightarrow> if c = CHR ''+'' \<or> c = CHR ''-'' then r else t
                          | [] \<Rightarrow> t);
          sgn = (case t of c # r \<Rightarrow> if c = CHR ''-'' then - 1 else 1 | [] \<Rightarrow> 1)
      in if body \<noteq> [] \<and> list_all is_digit body then Some (sgn * digits_value body)
         else None)"

text \<open>\<^verbatim>\<open>sorted(set(predictors) - set(df.columns))\<close>\<close>

definition cols_not_found :: "string list \<Rightarrow> frame \<Rightarrow> string list" where
  "cols_not_found predictors df =
     sort (remdups (filter (\<lambda>p. CStr p \<notin> set (labels df)) predictors))"

text \<open>
  \<^verbatim>\<open>df.rename(columns=dict(zip(roi_alter, roi_name)))\<close>: in the dictionary a later pair
  replaces an earlier one with the same key; a label that is no key stays.
\<close>

definition rename_cols :: "frame \<Rightarrow> colname list \<Rightarrow> string list \<Rightarrow> frame" where
  "rename_cols df alter names =
     df\<lparr>columns :=
          map (\<lambda>(k, c). (case map_of (rev (zip alter names)) k of
                             Some n \<Rightarrow> (CStr n, c)
                           | None \<Rightarrow> (k, c)))
              (columns df)\<rparr>"

text \<open>
  One turn of the loop of lines 139 to 145. The message reads \<^verbatim>\<open>roi_alter[0]\<close>, which
  raises on an empty list. The \<^verbatim>\<open>continue\<close> that ends the body goes on with the next
  convention.
\<close>

definition try_convention ::
  "string list \<Rightarrow> logmsg list \<times> frame \<Rightarrow> colname list \<Rightarrow> exc + logmsg list \<times> frame" where
  "try_convention roi_name st roi_alter =
     (if set roi_alter \<subseteq> set (labels (snd st)) then
        (case (roi_alter, roi_name) of
           (a # _, n # _) \<Rightarrow>
             Inr (fst st @ [RoiNamesChanged a n], rename_cols (snd st) roi_alter roi_name)
         | _ \<Rightarrow> Inl IndexError)
      else Inr st)"

fun try_conventions ::
  "string list \<Rightarrow> logmsg list \<times> frame \<Rightarrow> colname list list \<Rightarrow> exc + logmsg list \<times> frame"
  where
  "try_conventions roi_name st [] = Inr st"
| "try_conventions roi_name st (alt # alts) =
     bind_exc (try_convention roi_name st alt) (\<lambda>st'. try_conventions roi_name st' alts)"

text \<open>
  The three lists of line 139 to 141, built before the loop starts: the integer list
  raises when one suffix is no integer.
\<close>

fun int_suffixes :: "string list \<Rightarrow> exc + colname list" where
  "int_suffixes [] = Inr []"
| "int_suffixes (a # as) =
     (case py_int (last_part CHR ''_'' a) of
        None \<Rightarrow> Inl ValueError
      | Some n \<Rightarrow> bind_exc (int_suffixes as) (\<lambda>r. Inr (CInt n # r)))"

definition conventions :: "string list \<Rightarrow> exc + colname list list" where
  "conventions roi_name =
     bind_exc (int_suffixes roi_name) (\<lambda>ints.
       Inr [ints,
            map (\<lambda>a. CStr (last_part CHR ''_'' a)) roi_name,
            map (\<lambda>a. CStr (CHR ''R'' # last_part CHR ''_'' a)) roi_name])"

definition reconcile :: "string list \<Rightarrow> frame \<Rightarrow> logmsg list \<times> (failure + frame)" where
  "reconcile predictors df =
     (if set (map CStr predictors) \<subseteq> set (labels df) then ([], Inr df)
      else if list_ex (\<lambda>a. CHR ''_'' \<notin> set a) (cols_not_found predictors df)
      then ([], Inl (Failed (MissingPredictors (cols_not_found predictors df))))
      else
        (case bind_exc (conventions (filter (\<lambda>a. CHR ''_'' \<in> set a) predictors))
                (try_conventions (filter (\<lambda>a. CHR ''_'' \<in> set a) predictors) ([], df)) of
           Inl e \<Rightarrow> ([], Inl (Failed (MissingPredictors (cols_not_found predictors df))))
         | Inr (lg, df') \<Rightarrow>
             if cols_not_found predictors df' \<noteq> []
             then (lg, Inl (Failed (MissingPredictors (cols_not_found predictors df'))))
             else (lg, Inr df')))"

subsection \<open>Checks and categorical replay (\<^verbatim>\<open>spare_test\<close>, lines 152 to 179)\<close>

text \<open>\<^verbatim>\<open>s.isin(values)\<close>, row by row.\<close>

definition isin :: "val list \<Rightarrow> val list \<Rightarrow> bool list" where
  "isin xs values = map (\<lambda>v. v \<in> set values) xs"

definition outside_age_range :: "val list \<Rightarrow> val \<times> val \<Rightarrow> bool" where
  "outside_age_range ages rng =
     (case (numbers ages, rng) of
        (r # rs, (Num lo, Num hi)) \<Rightarrow> fold min rs r < lo \<or> fold max rs r > hi
      | _ \<Rightarrow> False)"

definition inference_checks :: "metaData \<Rightarrow> frame \<Rightarrow> logmsg list \<times> (exc + unit)" where
  "inference_checks md df =
     (case get_col df (CStr ''Age'') of
        None \<Rightarrow> ([], Inl KeyError)
      | Some age \<Rightarrow>
          if list_ex is_str (cells age) then ([], Inl TypeError)
          else
     (let lg1 = (if outside_age_range (cells age) (md_age_range md)
                 then [OutsideAgeRange] else [])
      in
      case select_cols df (map CStr (md_predictors md)) of
        Inl e \<Rightarrow> (lg1, Inl e)
      | Inr pcs \<Rightarrow>
     (let lg2 = lg1 @ (if any_missing pcs then [InvalidPredictorValues] else [])
      in
      case (get_col df (CStr ''PTID''), get_col (md_cv_results md) (CStr ''PTID'')) of
        (Some pt, Some tr) \<Rightarrow>
          (lg2 @ (if list_ex id (isin (cells pt) (cells tr))
                  then [MatchingTrainingIds (length (filter id (isin (cells pt) (cells tr))))]
                  else []),
           Inr ())
      | _ \<Rightarrow> (lg2, Inl KeyError))))"

text \<open>
  One turn of the loop of lines 165 to 171, for the entry \<open>(var, m)\<close> of the stored map.
\<close>

definition replay_var :: "frame \<Rightarrow> string \<times> catmap option \<Rightarrow> failure + frame" where
  "replay_var df entry =
     (case snd entry of
        None \<Rightarrow> Inr df
      | Some m \<Rightarrow>
          (case get_col df (CStr (fst entry)) of
             None \<Rightarrow> Inl (Raised KeyError)
           | Some c \<Rightarrow>
               if list_all id (isin (cells c) (map fst m))
               then Inr (set_col df (CStr (fst entry)) (series_map m c))
               else Inl (Failed (UnknownCategoricalValue (fst entry) (map fst m)))))"

fun replay_vars :: "frame \<Rightarrow> (string \<times> catmap option) list \<Rightarrow> failure + frame" where
  "replay_vars df [] = Inr df"
| "replay_vars df (entry # rest) =
     bind_exc (replay_var df entry) (\<lambda>df'. replay_vars df' rest)"

definition convert_categorical_test :: "metaData \<Rightarrow> frame \<Rightarrow> failure + frame" where
  "convert_categorical_test md df =
     (case md_categorical_var_map md of
        None \<Rightarrow> Inr df
      | Some cmap \<Rightarrow> replay_vars df cmap)"

text \<open>
  Lines 174 to 179 print the model description; \<^verbatim>\<open>int(metaData['age_range'][0])\<close> raises
  on not-a-number.
\<close>

definition model_info :: "metaData \<Rightarrow> exc + unit" where
  "model_info md =
     (case md_age_range md of
        (Num lo, Num hi) \<Rightarrow> Inr ()
      | (Str a, _) \<Rightarrow> Inl ValueError
      | (_, Str b) \<Rightarrow> Inl ValueError
      | _ \<Rightarrow> Inl ValueError)"

subsection \<open>Scores (\<^verbatim>\<open>spare_test\<close>, lines 182 to 194)\<close>

text \<open>Float arithmetic with the special values; finite values are exact.\<close>

fun fl_add :: "npfloat \<Rightarrow> npfloat \<Rightarrow> npfloat" where
  "fl_add (Fin a) (Fin b) = Fin (a + b)"
| "fl_add Nan _ = Nan"
| "fl_add _ Nan = Nan"
| "fl_add PosInf NegInf = Nan"
| "fl_add NegInf PosInf = Nan"
| "fl_add PosInf _ = PosInf"
| "fl_add _ PosInf = PosInf"
| "fl_add NegInf _ = NegInf"
| "fl_add _ NegInf = NegInf"

fun fl_scale :: "npfloat \<Rightarrow> real \<Rightarrow> npfloat" where
  "fl_scale (Fin a) b = Fin (a * b)"
| "fl_scale Nan b = Nan"
| "fl_scale PosInf b = (if b = 0 then Nan else if 0 < b then PosInf else NegInf)"
| "fl_scale NegInf b = (if b = 0 then Nan else if 0 < b then NegInf else PosInf)"

fun fl_div :: "npfloat \<Rightarrow> real \<Rightarrow> npfloat" where
  "fl_div (Fin a) b =
     (if b \<noteq> 0 then Fin (a / b)
      else if a = 0 then Nan else if 0 < a then PosInf else NegInf)"
| "fl_div Nan b = Nan"
| "fl_div PosInf b = (if 0 \<le> b then PosInf else NegInf)"
| "fl_div NegInf b = (if 0 \<le> b then NegInf else PosInf)"

definition fl_sum :: "npfloat list \<Rightarrow> npfloat" where
  "fl_sum xs = foldl fl_add (Fin 0) xs"

text \<open>\<^verbatim>\<open>np.nanmean\<close> of one row: the mean of the entries that are not not-a-number.\<close>

definition nanmean :: "npfloat list \<Rightarrow> npfloat" where
  "nanmean xs =
     (let ys = filter (\<lambda>v. v \<noteq> Nan) xs
      in if ys = [] then Nan else fl_div (fl_sum ys) (real (length ys)))"

text \<open>
  Line 187, for one row: \<^verbatim>\<open>np.sum(X * coef_, axis=1) + intercept_\<close>. A coefficient vector
  of another length than the row raises (broadcasting a single column is outside the
  model).
\<close>

definition linear_decision :: "npfloat list \<Rightarrow> real list \<Rightarrow> real \<Rightarrow> exc + npfloat" where
  "linear_decision X cf b =
     (if length X \<noteq> length cf then Inl ValueError
      else Inr (fl_add (fl_sum (map2 fl_scale X cf)) (Fin b)))"

definition nth_exc :: "'a list \<Rightarrow> nat \<Rightarrow> exc \<Rightarrow> exc + 'a" where
  "nth_exc xs i e = (if i < length xs then Inr (xs ! i) else Inl e)"

fun take_labels :: "'a list \<Rightarrow> nat list \<Rightarrow> exc + 'a list" where
  "take_labels xs [] = Inr []"
| "take_labels xs (j # js) =
     bind_exc (nth_exc xs j KeyError) (\<lambda>v.
     bind_exc (take_labels xs js) (\<lambda>r. Inr (v # r)))"

text \<open>
  \<^verbatim>\<open>metaData['cv_results']['PTID'][mdl['cv_folds'][i][0]]\<close>: the identifiers of the rows
  fold \<open>i\<close> was trained on. The rows of the stored table are labelled \<open>0, 1, ...\<close>.
\<close>

definition training_ids :: "mdl \<Rightarrow> metaData \<Rightarrow> nat \<Rightarrow> exc + val list" where
  "training_ids m md i =
     (case get_col (md_cv_results md) (CStr ''PTID'') of
        None \<Rightarrow> Inl KeyError
      | Some tr \<Rightarrow>
          bind_exc (nth_exc (cv_folds m) i IndexError) (\<lambda>fd. take_labels (cells tr) (fst fd)))"

definition cell :: "column \<Rightarrow> nat \<Rightarrow> val" where
  "cell c r = (if r < length (cells c) then cells c ! r else NaN)"

fun map_exc :: "('a \<Rightarrow> 'e + 'b) \<Rightarrow> 'a list \<Rightarrow> 'e + 'b list" where
  "map_exc f [] = Inr []"
| "map_exc f (x # xs) = bind_exc (f x) (\<lambda>y. bind_exc (map_exc f xs) (\<lambda>ys. Inr (y # ys)))"

text \<open>
  Line 185: \<^verbatim>\<open>mdl['scaler'][i].transform(df[metaData['predictors']])\<close>, the scaler applied
  to the predictor cells of every row.
\<close>

definition scaled :: "mdl \<Rightarrow> metaData \<Rightarrow> frame \<Rightarrow> nat \<Rightarrow> exc + npfloat list list" where
  "scaled m md df i =
     bind_exc (nth_exc (scaler m) i IndexError) (\<lambda>tr.
     bind_exc (select_cols df (map CStr (md_predictors md))) (\<lambda>pcs.
       map_exc (\<lambda>r. tr (map (\<lambda>(k, c). cell c r) pcs)) [0 ..< nrows df]))"

text \<open>Lines 186 to 189: the decision value of fold \<open>i\<close> for every scaled row.\<close>

definition decision_values ::
  "mdl \<Rightarrow> metaData \<Rightarrow> nat \<Rightarrow> npfloat list list \<Rightarrow> exc + npfloat list" where
  "decision_values m md i X =
     bind_exc (nth_exc (svms m) i IndexError) (\<lambda>sv.
       if md_kernel md = ''linear''
       then map_exc (\<lambda>x. linear_decision x (coef sv) (intercept sv)) X
       else map_exc (decision_function sv) X)"

text \<open>Lines 190 and 191: \<^verbatim>\<open>(ss[:, i] - int[i]) / slope[i]\<close> for a regression model.\<close>

definition bias_correct :: "real \<Rightarrow> real \<Rightarrow> npfloat \<Rightarrow> npfloat" where
  "bias_correct b a s = fl_div (fl_add s (Fin (- b))) a"

definition bias_corrected ::
  "mdl \<Rightarrow> metaData \<Rightarrow> nat \<Rightarrow> npfloat list \<Rightarrow> exc + npfloat list" where
  "bias_corrected m md i raw =
     (if md_spare_type md = Regression then
        bind_exc (nth_exc (bias_int m) i IndexError) (\<lambda>b.
        bind_exc (nth_exc (bias_slope m) i IndexError) (\<lambda>a.
          Inr (map (bias_correct b a) raw)))
      else Inr raw)"

text \<open>
  Line 192: the entry of every row whose identifier is a training identifier of the fold
  becomes not-a-number.
\<close>

definition leak_masked :: "val list \<Rightarrow> val \<Rightarrow> npfloat \<Rightarrow> npfloat" where
  "leak_masked ids ptid s = (if ptid \<in> set ids then Nan else s)"

definition masked :: "mdl \<Rightarrow> metaData \<Rightarrow> frame \<Rightarrow> nat \<Rightarrow> npfloat list \<Rightarrow> exc + npfloat list"
  where
  "masked m md df i cor =
     (case get_col df (CStr ''PTID'') of
        None \<Rightarrow> Inl KeyError
      | Some pt \<Rightarrow>
          bind_exc (training_ids m md i) (\<lambda>ids.
            Inr (map (\<lambda>(r, s). leak_masked ids (cell pt r) s) (zip [0 ..< length cor] cor))))"

text \<open>
  \<open>corrected_column m md df i\<close> is \<^verbatim>\<open>ss[:, i]\<close> in turn \<open>i\<close> of the loop before line 192,
  \<open>score_column m md df i\<close> is \<^verbatim>\<open>ss[:, i]\<close> after the turn.
\<close>

definition corrected_column :: "mdl \<Rightarrow> metaData \<Rightarrow> frame \<Rightarrow> nat \<Rightarrow> exc + npfloat list" where
  "corrected_column m md df i =
     bind_exc (scaled m md df i) (\<lambda>X.
     bind_exc (decision_values m md i X) (\<lambda>raw.
       bias_corrected m md i raw))"

definition score_column :: "mdl \<Rightarrow> metaData \<Rightarrow> frame \<Rightarrow> nat \<Rightarrow> exc + npfloat list" where
  "score_column m md df i =
     bind_exc (corrected_column m md df i) (\<lambda>cor. masked m md df i cor)"

text \<open>
  Lines 182 to 194: one column per fold, \<^verbatim>\<open>n_ensemble = len(mdl['scaler'])\<close> of them, then
  \<^verbatim>\<open>np.nanmean(ss, axis=1)\<close>.
\<close>

definition score_matrix :: "mdl \<Rightarrow> metaData \<Rightarrow> frame \<Rightarrow> exc + npfloat list list" where
  "score_matrix m md df = map_exc (score_column m md df) [0 ..< length (scaler m)]"

definition score_row :: "npfloat list list \<Rightarrow> nat \<Rightarrow> npfloat list" where
  "score_row ss r = map (\<lambda>col. col ! r) ss"

definition calc_scores :: "mdl \<Rightarrow> metaData \<Rightarrow> frame \<Rightarrow> exc + npfloat list" where
  "calc_scores m md df =
     bind_exc (score_matrix m md df)
       (\<lambda>ss. Inr (map (\<lambda>r. nanmean (score_row ss r)) [0 ..< nrows df]))"

subsection \<open>\<^verbatim>\<open>spare_test\<close>\<close>

record test_out =
  s_store :: "obj list"
  s_log :: "logmsg list"
  s_saved :: "(string \<times> npfloat list) option"
  s_result :: "failure + npfloat list"

definition halt :: "obj list \<Rightarrow> logmsg list \<Rightarrow> failure \<Rightarrow> test_out" where
  "halt st lg f = \<lparr>s_store = st, s_log = lg, s_saved = None, s_result = Inl f\<rparr>"

text \<open>
  Lines 198 to 201: \<^verbatim>\<open>mdl_path.split('/')[-1].split('.')[0]\<close> names the output file.
\<close>

definition scores_file :: "string \<Rightarrow> string \<Rightarrow> string" where
  "scores_file out_path mdl_path =
     out_path @ ''/SPAREs_from_''
       @ takeWhile (\<lambda>c. c \<noteq> CHR ''.'') (last_part CHR ''/'' mdl_path) @ ''.csv''"

text \<open>
  The whole function. \<^verbatim>\<open>load_model\<close> and the file system are external. The copy of line
  130 is a new object of the store, at \<open>length st\<close>; the local name \<^verbatim>\<open>df\<close> stays bound to
  that address (a frame that \<^verbatim>\<open>rename\<close> returns is written there).
\<close>

definition spare_test ::
  "(string \<Rightarrow> exc + mdl \<times> metaData) \<Rightarrow> (string \<Rightarrow> bool) \<Rightarrow> obj list \<Rightarrow> nat \<Rightarrow> string
   \<Rightarrow> bool \<Rightarrow> string \<Rightarrow> test_out" where
  "spare_test load_model writable st df_ref mdl_path save_csv out_path =
     (case load_model mdl_path of
        Inl e \<Rightarrow> halt st [] (Raised e)
      | Inr (m, md) \<Rightarrow>
     (case load st df_ref of
        Some (FrameObj df0) \<Rightarrow>
     (case reconcile (md_predictors md) df0 of
        (lg, Inl f) \<Rightarrow> halt (st @ [FrameObj df0]) lg f
      | (lg, Inr df1) \<Rightarrow>
     (case inference_checks md df1 of
        (lg', Inl e) \<Rightarrow> halt (st @ [FrameObj df1]) (lg @ lg') (Raised e)
      | (lg', Inr u) \<Rightarrow>
     (case convert_categorical_test md df1 of
        Inl f \<Rightarrow> halt (st @ [FrameObj df1]) (lg @ lg') f
      | Inr df2 \<Rightarrow>
     (case bind_exc (model_info md) (\<lambda>u. calc_scores m md df2) of
        Inl e \<Rightarrow> halt (st @ [FrameObj df2]) (lg @ lg') (Raised e)
      | Inr scores \<Rightarrow>
          if save_csv then
            (if writable (scores_file out_path mdl_path)
             then \<lparr>s_store = st @ [FrameObj df2], s_log = lg @ lg',
                   s_saved = Some (scores_file out_path mdl_path, scores),
                   s_result = Inr scores\<rparr>
             else halt (st @ [FrameObj df2]) (lg @ lg') (Raised OSError))
          else \<lparr>s_store = st @ [FrameObj df2], s_log = lg @ lg', s_saved = None,
                 s_result = Inr scores\<rparr>))))
      | _ \<Rightarrow> halt st [] (Raised TypeError)))"

subsection \<open>Numeric columns\<close>



subsection \<open>Example inputs\<close>

definition demo_mdl :: mdl where
  "demo_mdl = \<lparr>scaler = [], svms = [], bias_int = [], bias_slope = [], cv_folds = []\<rparr>"

definition demo_ext :: ext where
  "demo_ext =
     \<lparr>run_SVC = (\<lambda>a. Inr \<lparr>o_predicted = replicate (nrows (a_data a)) (Num 0),
                           o_mdl = demo_mdl, o_perf = [], o_params = []\<rparr>),
      run_SVR = (\<lambda>a. Inr \<lparr>o_predicted = replicate (nrows (a_data a)) (Num 0),
                           o_mdl = demo_mdl, o_perf = [], o_params = []\<rparr>),
      sample = (\<lambda>d n seed. Inr d),
      can_write = (\<lambda>p. True)\<rparr>"



text \<open>Ten participants with a numeric target, and a two-valued categorical predictor.\<close>

definition reg_frame :: frame where
  "reg_frame =
     \<lparr>nrows = 10,
      columns =
        [(CStr ''PTID'', \<lparr>dtype = ''object'',
                          cells = map (\<lambda>c. Str [CHR ''P'', c]) ''ABCDEFGHIJ''\<rparr>),
         (CStr ''Age'', \<lparr>dtype = ''float64'',
                         cells = [Num 61, Num 62, Num 63, Num 64, Num 65,
                                  Num 66, Num 67, Num 68, Num 69, Num 70]\<rparr>),
         (CStr ''Sex'', \<lparr>dtype = ''object'',
                         cells = [Str ''F'', Str ''M'', Str ''F'', Str ''M'', Str ''F'',
                                  Str ''M'', Str ''F'', Str ''M'', Str ''F'', Str ''M'']\<rparr>),
         (CStr ''y'', \<lparr>dtype = ''float64'',
                       cells = [Num 1, Num 2, Num 3, Num 4, Num 5,
                                Num 6, Num 7, Num 8, Num 9, Num 10]\<rparr>),
         (CStr ''ROI_1'', \<lparr>dtype = ''float64'', cells = replicate 10 (Num 1)\<rparr>)]\<rparr>"



text \<open>
  Metadata of a regression model with linear kernel trained on \<open>reg_frame\<close>, for a given
  predictor list, and a frame with one column of a given label.
\<close>

definition demo_md :: "string list \<Rightarrow> metaData" where
  "demo_md ps =
     \<lparr>md_spare_type = Regression, md_kernel = ''linear'', md_n = 10,
      md_age_range = (Num 61, Num 70), md_to_predict = ''y'', md_predictors = ps,
      md_categorical_var_map = Some [], md_pos_group = None, md_perf = [], md_params = [],
      md_cv_results = reg_frame\<rparr>"

definition one_column :: "colname \<Rightarrow> frame" where
  "one_column c =
     \<lparr>nrows = 2, columns = [(c, \<lparr>dtype = ''float64'', cells = [Num 1, Num 2]\<rparr>)]\<rparr>"

text \<open>
  An ensemble of two linear regression folds over one predictor trained on \<open>reg_frame\<close>:
  fold 0 was trained on rows 0 and 2, fold 1 on rows 1 and 2. The scalers pass numbers
  through. The inference table has the identifiers of rows 0, 1 and 2 and a new one.
\<close>

definition pass_through :: "val list \<Rightarrow> exc + npfloat list" where
  "pass_through row = Inr (map (\<lambda>v. case v of Num x \<Rightarrow> Fin x | _ \<Rightarrow> Nan) row)"

definition two_folds :: mdl where
  "two_folds =
     \<lparr>scaler = [pass_through, pass_through],
      svms = [\<lparr>coef = [2], intercept = 1, decision_function = (\<lambda>X. Inr Nan)\<rparr>,
              \<lparr>coef = [4], intercept = 0, decision_function = (\<lambda>X. Inr Nan)\<rparr>],
      bias_int = [1, 0],
      bias_slope = [2, 4],
      cv_folds = [([0, 2], [1]), ([1, 2], [0])]\<rparr>"



subsection \<open>The refinement as the specification words it\<close>




text \<open>
  A model whose stored map encodes the predictor \<open>Sex\<close>, and inference tables with a
  given \<open>Sex\<close> column.
\<close>

definition sex_map :: catmap where
  "sex_map = [(Str ''F'', Num 1), (Str ''M'', Num 2)]"



text \<open>The table \<open>reg_frame\<close> with a missing value in its first \<open>ROI_1\<close> cell.\<close>

definition gap_frame :: frame where
  "gap_frame =
     set_col reg_frame (CStr ''ROI_1'')
       \<lparr>dtype = ''float64'', cells = NaN # replicate 9 (Num 1)\<rparr>"

subsection \<open>The exponential grid\<close>

lemma py_trunc_of_int: "py_trunc (of_int k) = k"
  by (simp add: py_trunc_def)

lemma linspace_int_span:
  assumes "lo \<le> hi"
  shows "linspace (of_int lo) (of_int hi) (hi - lo + 1)
         = Inr (map (\<lambda>i. of_int lo + real i) [0 ..< nat (hi - lo + 1)])"
proof (cases "lo = hi")
  case True
  then show ?thesis by (simp add: linspace_def)
next
  case False
  with assms have lt: "lo < hi" by simp
  then have nz: "real_of_int (hi - lo) \<noteq> 0" by simp
  have "(real_of_int hi - real_of_int lo) / real_of_int (hi - lo) = 1"
    using nz by simp
  then show ?thesis using lt by (simp add: linspace_def)
qed

lemma expspace_int_span:
  assumes "lo \<le> hi"
  shows "expspace (of_int lo, of_int hi)
         = Inr (map (\<lambda>i. exp (of_int lo + real i)) [0 ..< nat (hi - lo + 1)])"
  using linspace_int_span [OF assms]
  by (simp add: expspace_def py_trunc_of_int comp_def)




subsection \<open>Validation and model-type detection\<close>

















lemma reg_frame_target:
  "get_col reg_frame (CStr ''y'')
   = Some \<lparr>dtype = ''float64'',
           cells = [Num 1, Num 2, Num 3, Num 4, Num 5, Num 6, Num 7, Num 8, Num 9, Num 10]\<rparr>"
  "length (unique [Num 1, Num 2, Num 3, Num 4, Num 5, Num 6, Num 7, Num 8, Num 9, Num 10]) = 10"
  by (simp_all add: get_col_def reg_frame_def unique_def)


subsection \<open>Predictor reconciliation\<close>

lemma int_suffixes_fail:
  "\<exists>a \<in> set xs. py_int (last_part CHR ''_'' a) = None \<Longrightarrow> int_suffixes xs = Inl ValueError"
proof (induction xs)
  case Nil
  then show ?case by simp
next
  case (Cons a xs)
  show ?case
  proof (cases "py_int (last_part CHR ''_'' a)")
    case None
    then show ?thesis by simp
  next
    case (Some n)
    with Cons.prems have "\<exists>a \<in> set xs. py_int (last_part CHR ''_'' a) = None" by auto
    with Cons.IH Some show ?thesis by (simp add: bind_exc_def)
  qed
qed

lemma int_suffixes_ok:
  "int_suffixes xs = Inr ints \<Longrightarrow>
   \<exists>ns. ints = map CInt ns \<and> map (\<lambda>a. py_int (last_part CHR ''_'' a)) xs = map Some ns"
proof (induction xs arbitrary: ints)
  case Nil
  then show ?case by simp
next
  case (Cons a xs)
  from Cons.prems obtain n r where
    n: "py_int (last_part CHR ''_'' a) = Some n" and r: "int_suffixes xs = Inr r"
    and i: "ints = CInt n # r"
    by (auto simp add: bind_exc_def split: option.splits sum.splits)
  from Cons.IH [OF r] obtain ns where "r = map CInt ns"
    "map (\<lambda>a. py_int (last_part CHR ''_'' a)) xs = map Some ns" by blast
  with n i have "ints = map CInt (n # ns) \<and>
     map (\<lambda>a. py_int (last_part CHR ''_'' a)) (a # xs) = map Some (n # ns)" by simp
  then show ?case by blast
qed

lemma reconcile_no_underscore:
  assumes "\<not> set (map CStr ps) \<subseteq> set (labels df)"
    and "list_ex (\<lambda>a. CHR ''_'' \<notin> set a) (cols_not_found ps df)"
  shows "reconcile ps df = ([], Inl (Failed (MissingPredictors (cols_not_found ps df))))"
  using assms by (simp add: reconcile_def)

lemma reconcile_bad_suffix:
  assumes "\<not> set (map CStr ps) \<subseteq> set (labels df)"
    and "\<exists>a \<in> set ps. CHR ''_'' \<in> set a \<and> py_int (last_part CHR ''_'' a) = None"
  shows "reconcile ps df = ([], Inl (Failed (MissingPredictors (cols_not_found ps df))))"
proof (cases "list_ex (\<lambda>a. CHR ''_'' \<notin> set a) (cols_not_found ps df)")
  case True
  with assms(1) show ?thesis by (rule reconcile_no_underscore)
next
  case False
  from assms(2) have "\<exists>a \<in> set (filter (\<lambda>a. CHR ''_'' \<in> set a) ps).
      py_int (last_part CHR ''_'' a) = None" by auto
  then have "int_suffixes (filter (\<lambda>a. CHR ''_'' \<in> set a) ps) = Inl ValueError"
    by (rule int_suffixes_fail)
  then have "conventions (filter (\<lambda>a. CHR ''_'' \<in> set a) ps) = Inl ValueError"
    by (simp add: conventions_def bind_exc_def)
  with assms(1) False show ?thesis
    by (simp add: reconcile_def bind_exc_def)
qed

lemma spare_test_reconcile_failed:
  assumes "load_model mdl_path = Inr (m, md)"
    and "load st df_ref = Some (FrameObj df)"
    and "reconcile (md_predictors md) df = (lg, Inl f)"
  shows "spare_test load_model writable st df_ref mdl_path save_csv out_path
         = halt (st @ [FrameObj df]) lg f"
  using assms by (simp add: spare_test_def)

lemma set_cols_not_found:
  "set (cols_not_found ps df) = {p \<in> set ps. CStr p \<notin> set (labels df)}"
  by (auto simp add: cols_not_found_def)

lemma cols_not_found_sorted:
  "sorted (cols_not_found ps df)" "distinct (cols_not_found ps df)"
  by (simp_all add: cols_not_found_def)

lemma cols_not_found_empty:
  "cols_not_found ps df = [] \<longleftrightarrow> set (map CStr ps) \<subseteq> set (labels df)"
proof -
  have "cols_not_found ps df = [] \<longleftrightarrow> set (cols_not_found ps df) = {}" by simp
  also have "\<dots> \<longleftrightarrow> set (map CStr ps) \<subseteq> set (labels df)"
    unfolding set_cols_not_found by auto
  finally show ?thesis .
qed

lemma rename_cols_frame:
  "nrows (rename_cols d alt roi) = nrows d"
  "map snd (columns (rename_cols d alt roi)) = map snd (columns d)"
  "labels (rename_cols d alt roi)
   = map (\<lambda>k. case map_of (rev (zip alt roi)) k of Some n \<Rightarrow> CStr n | None \<Rightarrow> k) (labels d)"
  by (auto simp add: rename_cols_def labels_def split: option.splits)

lemma try_convention_step:
  assumes "alt \<noteq> []" and "roi \<noteq> []"
  shows "\<exists>lg'. try_convention roi (lg, d) alt
           = Inr (lg', if set alt \<subseteq> set (labels d) then rename_cols d alt roi else d)"
  using assms by (cases alt; cases roi) (simp_all add: try_convention_def)

lemma try_conventions_fold:
  assumes "roi \<noteq> []" and "\<forall>alt \<in> set alts. alt \<noteq> []"
  shows "\<exists>lg'. try_conventions roi (lg, d) alts
           = Inr (lg', foldl (\<lambda>d alt. if set alt \<subseteq> set (labels d)
                                        then rename_cols d alt roi else d) d alts)"
  using assms(2)
proof (induction alts arbitrary: lg d)
  case Nil
  then show ?case by simp
next
  case (Cons alt alts)
  from Cons.prems have "alt \<noteq> []" by simp
  from try_convention_step [OF this assms(1)] obtain lg1 where
    s: "try_convention roi (lg, d) alt
        = Inr (lg1, if set alt \<subseteq> set (labels d) then rename_cols d alt roi else d)"
    by blast
  from Cons.prems have "\<forall>alt \<in> set alts. alt \<noteq> []" by simp
  from Cons.IH [OF this] s show ?case by (simp add: bind_exc_def)
qed

lemma fold_rename_frame:
  "nrows (foldl (\<lambda>d alt. if set alt \<subseteq> set (labels d)
                          then rename_cols d alt roi else d) d alts) = nrows d
   \<and> map snd (columns (foldl (\<lambda>d alt. if set alt \<subseteq> set (labels d)
                          then rename_cols d alt roi else d) d alts)) = map snd (columns d)"
  by (induction alts arbitrary: d) (simp_all add: rename_cols_frame)

lemma reconcile_conventions:
  assumes "\<not> set (map CStr ps) \<subseteq> set (labels df)"
    and "\<not> list_ex (\<lambda>a. CHR ''_'' \<notin> set a) (cols_not_found ps df)"
    and "int_suffixes (filter (\<lambda>a. CHR ''_'' \<in> set a) ps) = Inr ints"
  shows
    "\<exists>lg df' ns.
       ints = map CInt ns
       \<and> map (\<lambda>a. py_int (last_part CHR ''_'' a)) (filter (\<lambda>a. CHR ''_'' \<in> set a) ps)
           = map Some ns
       \<and> df' = foldl (\<lambda>d alt. if set alt \<subseteq> set (labels d)
                               then rename_cols d alt (filter (\<lambda>a. CHR ''_'' \<in> set a) ps)
                               else d)
                      df
                      [ints,
                       map (\<lambda>a. CStr (last_part CHR ''_'' a))
                         (filter (\<lambda>a. CHR ''_'' \<in> set a) ps),
                       map (\<lambda>a. CStr (CHR ''R'' # last_part CHR ''_'' a))
                         (filter (\<lambda>a. CHR ''_'' \<in> set a) ps)]
       \<and> reconcile ps df
           = (lg, if set (map CStr ps) \<subseteq> set (labels df') then Inr df'
                  else Inl (Failed (MissingPredictors (cols_not_found ps df'))))
       \<and> set (cols_not_found ps df') = {p \<in> set ps. CStr p \<notin> set (labels df')}
       \<and> sorted (cols_not_found ps df') \<and> distinct (cols_not_found ps df')
       \<and> nrows df' = nrows df
       \<and> map snd (columns df') = map snd (columns df)"
proof -
  let ?roi = "filter (\<lambda>a. CHR ''_'' \<in> set a) ps"
  let ?alts = "[ints, map (\<lambda>a. CStr (last_part CHR ''_'' a)) ?roi,
                map (\<lambda>a. CStr (CHR ''R'' # last_part CHR ''_'' a)) ?roi]"
  let ?step = "\<lambda>d alt. if set alt \<subseteq> set (labels d) then rename_cols d alt ?roi else d"
  let ?df' = "foldl ?step df ?alts"
  from int_suffixes_ok [OF assms(3)] obtain ns where
    ns: "ints = map CInt ns" "map (\<lambda>a. py_int (last_part CHR ''_'' a)) ?roi = map Some ns"
    by blast
  from assms(1) have "cols_not_found ps df \<noteq> []" by (simp add: cols_not_found_empty)
  then obtain a where a: "a \<in> set (cols_not_found ps df)" by (cases "cols_not_found ps df") auto
  with assms(2) have "CHR ''_'' \<in> set a" by (auto simp add: list_ex_iff)
  moreover from a have "a \<in> set ps" by (simp add: set_cols_not_found)
  ultimately have roi: "?roi \<noteq> []" by (auto simp add: filter_empty_conv)
  from ns(2) have "length ns = length ?roi" by (metis length_map)
  with roi ns(1) have "ints \<noteq> []" by auto
  with roi have ne: "\<forall>alt \<in> set ?alts. alt \<noteq> []" by simp
  from try_conventions_fold [OF roi ne, of "[]" df] obtain lg where
    t: "try_conventions ?roi ([], df) ?alts = Inr (lg, ?df')" by blast
  have c: "conventions ?roi = Inr ?alts"
    by (simp add: conventions_def assms(3) bind_exc_def)
  have r: "reconcile ps df
           = (lg, if set (map CStr ps) \<subseteq> set (labels ?df') then Inr ?df'
                  else Inl (Failed (MissingPredictors (cols_not_found ps ?df'))))"
    using assms(1,2) c t cols_not_found_empty [of ps ?df']
    by (simp add: reconcile_def bind_exc_def del: foldl_Cons)
  from fold_rename_frame [of ?roi df ?alts]
  have f: "nrows ?df' = nrows df" "map snd (columns ?df') = map snd (columns df)"
    by blast+
  from ns r f set_cols_not_found [of ps ?df'] cols_not_found_sorted [of ps ?df']
  show ?thesis by blast
qed

lemma replay_vars_failure:
  "replay_vars df cmap = Inl f \<Longrightarrow>
   f = Raised KeyError \<or> (\<exists>var keys. f = Failed (UnknownCategoricalValue var keys))"
proof (induction cmap arbitrary: df)
  case Nil
  then show ?case by simp
next
  case (Cons entry rest)
  show ?case
  proof (cases "replay_var df entry")
    case (Inl e)
    with Cons.prems have "f = e" by (simp add: bind_exc_def)
    with Inl show ?thesis
      by (auto simp add: replay_var_def split: option.splits if_splits)
  next
    case (Inr df')
    with Cons.prems have "replay_vars df' rest = Inl f" by (simp add: bind_exc_def)
    then show ?thesis by (rule Cons.IH)
  qed
qed

text \<open>
  C10. When a predictor is missing from the inference table and one of the missing names
  has no underscore, \<^verbatim>\<open>spare_test\<close> fails at once with the missing-predictors error for
  the names missing from the table as given, and no convention is tried (nothing is
  logged, nothing renamed). When the suffix after the last underscore of some expected
  predictor is no integer, the exception of the integer convention ends all three
  conventions, the string conventions included, with the same error.
\<close>

theorem spare_test_reconcile_aborts:
  assumes "load_model mdl_path = Inr (m, md)"
    and "load st df_ref = Some (FrameObj df)"
    and "\<not> set (map CStr (md_predictors md)) \<subseteq> set (labels df)"
  shows
    "(list_ex (\<lambda>a. CHR ''_'' \<notin> set a) (cols_not_found (md_predictors md) df)
      \<or> (\<exists>a \<in> set (md_predictors md).
            CHR ''_'' \<in> set a \<and> py_int (last_part CHR ''_'' a) = None))
     \<longrightarrow> reconcile (md_predictors md) df
           = ([], Inl (Failed (MissingPredictors (cols_not_found (md_predictors md) df))))
         \<and> s_result (spare_test load_model writable st df_ref mdl_path save_csv out_path)
           = Inl (Failed (MissingPredictors (cols_not_found (md_predictors md) df)))
         \<and> s_log (spare_test load_model writable st df_ref mdl_path save_csv out_path) = []"
proof
  assume h: "list_ex (\<lambda>a. CHR ''_'' \<notin> set a) (cols_not_found (md_predictors md) df)
      \<or> (\<exists>a \<in> set (md_predictors md).
            CHR ''_'' \<in> set a \<and> py_int (last_part CHR ''_'' a) = None)"
  have r: "reconcile (md_predictors md) df
           = ([], Inl (Failed (MissingPredictors (cols_not_found (md_predictors md) df))))"
    using h reconcile_no_underscore [OF assms(3)] reconcile_bad_suffix [OF assms(3)]
    by blast
  show "reconcile (md_predictors md) df
           = ([], Inl (Failed (MissingPredictors (cols_not_found (md_predictors md) df))))
         \<and> s_result (spare_test load_model writable st df_ref mdl_path save_csv out_path)
           = Inl (Failed (MissingPredictors (cols_not_found (md_predictors md) df)))
         \<and> s_log (spare_test load_model writable st df_ref mdl_path save_csv out_path) = []"
    using r spare_test_reconcile_failed [where load_model=load_model and mdl_path=mdl_path,
        OF assms(1,2) r]
    by (simp add: halt_def)
qed

lemma suffix_examples:
  "last_part CHR ''_'' ''ROI_abc'' = ''abc''"
  "last_part CHR ''_'' ''ROI_101'' = ''101''"
  "py_int ''abc'' = None"
  "py_int ''101'' = Some 101"
  by (simp_all add: last_part_def py_int_def strip_def is_space_def is_digit_def
        digits_value_def)

theorem spare_test_reconcile_aborts_witness:
  "s_result (spare_test (\<lambda>p. Inr (demo_mdl, demo_md [''ROI_abc''])) (\<lambda>p. True)
               [FrameObj (one_column (CStr ''abc''))] 0 ''m.pkl.gz'' False [])
     = Inl (Failed (MissingPredictors [''ROI_abc'']))
   \<and> s_result (spare_test (\<lambda>p. Inr (demo_mdl, demo_md [''Volume''])) (\<lambda>p. True)
               [FrameObj (one_column (CStr ''abc''))] 0 ''m.pkl.gz'' False [])
     = Inl (Failed (MissingPredictors [''Volume'']))"
proof -
  let ?st = "[FrameObj (one_column (CStr ''abc''))]"
  have l: "load ?st 0 = Some (FrameObj (one_column (CStr ''abc'')))"
    by (simp add: load_def)
  have lab: "labels (one_column (CStr ''abc'')) = [CStr ''abc'']"
    by (simp add: labels_def one_column_def)
  have m1: "(\<lambda>p::string. Inr (demo_mdl, demo_md [''ROI_abc''])) ''m.pkl.gz''
            = (Inr (demo_mdl, demo_md [''ROI_abc'']) :: exc + mdl \<times> metaData)" by simp
  have m2: "(\<lambda>p::string. Inr (demo_mdl, demo_md [''Volume''])) ''m.pkl.gz''
            = (Inr (demo_mdl, demo_md [''Volume'']) :: exc + mdl \<times> metaData)" by simp
  have p1: "md_predictors (demo_md [''ROI_abc'']) = [''ROI_abc'']"
    and p2: "md_predictors (demo_md [''Volume'']) = [''Volume'']"
    by (simp_all add: demo_md_def)
  have n1: "\<not> set (map CStr (md_predictors (demo_md [''ROI_abc''])))
              \<subseteq> set (labels (one_column (CStr ''abc'')))"
    by (simp add: p1 lab)
  have n2: "\<not> set (map CStr (md_predictors (demo_md [''Volume''])))
              \<subseteq> set (labels (one_column (CStr ''abc'')))"
    by (simp add: p2 lab)
  have c1: "cols_not_found [''ROI_abc''] (one_column (CStr ''abc'')) = [''ROI_abc'']"
    and c2: "cols_not_found [''Volume''] (one_column (CStr ''abc'')) = [''Volume'']"
    by (simp_all add: cols_not_found_def lab)
  have "s_result (spare_test (\<lambda>p. Inr (demo_mdl, demo_md [''ROI_abc''])) (\<lambda>p. True)
               ?st 0 ''m.pkl.gz'' False [])
     = Inl (Failed (MissingPredictors [''ROI_abc'']))"
    using spare_test_reconcile_aborts [where load_model="\<lambda>p. Inr (demo_mdl, demo_md [''ROI_abc''])"
        and mdl_path="''m.pkl.gz''" and writable="\<lambda>p. True"
        and save_csv=False and out_path="[]", OF m1 l n1]
    by (simp add: p1 c1 suffix_examples)
  moreover have "s_result (spare_test (\<lambda>p. Inr (demo_mdl, demo_md [''Volume''])) (\<lambda>p. True)
               ?st 0 ''m.pkl.gz'' False [])
     = Inl (Failed (MissingPredictors [''Volume'']))"
    using spare_test_reconcile_aborts [where load_model="\<lambda>p. Inr (demo_mdl, demo_md [''Volume''])"
        and mdl_path="''m.pkl.gz''" and writable="\<lambda>p. True"
        and save_csv=False and out_path="[]", OF m2 l n2]
    by (simp add: p2 c2)
  ultimately show ?thesis by blast
qed

text \<open>
  C7. When a predictor is missing from the inference table (every missing name has an
  underscore, every suffix is an integer), \<^verbatim>\<open>spare_test\<close> tries three conventions for
  the expected names with an underscore, in this order: the suffix after the last
  underscore as an integer label, as a string label, and as a string label prefixed with
  \<open>R\<close>. A convention all of whose labels are columns of the table renames those columns
  to the expected names (cells and row count stay). If afterwards every predictor is a
  column, the renamed table goes on; otherwise \<^verbatim>\<open>spare_test\<close> fails with the
  missing-predictors error that lists, sorted and without repetition, exactly the
  predictors that are still no column.
\<close>

theorem spare_test_reconcile:
  assumes "load_model mdl_path = Inr (m, md)"
    and "load st df_ref = Some (FrameObj df)"
    and "\<not> set (map CStr (md_predictors md)) \<subseteq> set (labels df)"
    and "\<not> list_ex (\<lambda>a. CHR ''_'' \<notin> set a) (cols_not_found (md_predictors md) df)"
    and "int_suffixes (filter (\<lambda>a. CHR ''_'' \<in> set a) (md_predictors md)) = Inr ints"
  shows
    "\<exists>lg df' ns.
       ints = map CInt ns
       \<and> map (\<lambda>a. py_int (last_part CHR ''_'' a))
             (filter (\<lambda>a. CHR ''_'' \<in> set a) (md_predictors md))
           = map Some ns
       \<and> df' = foldl (\<lambda>d alt. if set alt \<subseteq> set (labels d)
                               then rename_cols d alt
                                      (filter (\<lambda>a. CHR ''_'' \<in> set a) (md_predictors md))
                               else d)
                      df
                      [ints,
                       map (\<lambda>a. CStr (last_part CHR ''_'' a))
                         (filter (\<lambda>a. CHR ''_'' \<in> set a) (md_predictors md)),
                       map (\<lambda>a. CStr (CHR ''R'' # last_part CHR ''_'' a))
                         (filter (\<lambda>a. CHR ''_'' \<in> set a) (md_predictors md))]
       \<and> reconcile (md_predictors md) df
           = (lg, if set (map CStr (md_predictors md)) \<subseteq> set (labels df') then Inr df'
                  else Inl (Failed (MissingPredictors (cols_not_found (md_predictors md) df'))))
       \<and> (if set (map CStr (md_predictors md)) \<subseteq> set (labels df')
          then \<forall>cs. s_result (spare_test load_model writable st df_ref mdl_path save_csv
                                out_path) \<noteq> Inl (Failed (MissingPredictors cs))
          else s_result (spare_test load_model writable st df_ref mdl_path save_csv out_path)
               = Inl (Failed (MissingPredictors (cols_not_found (md_predictors md) df'))))
       \<and> set (cols_not_found (md_predictors md) df')
           = {p \<in> set (md_predictors md). CStr p \<notin> set (labels df')}
       \<and> sorted (cols_not_found (md_predictors md) df')
       \<and> distinct (cols_not_found (md_predictors md) df')
       \<and> nrows df' = nrows df
       \<and> map snd (columns df') = map snd (columns df)"
proof -
  from reconcile_conventions [OF assms(3,4,5)] obtain lg df' ns where
    a: "ints = map CInt ns"
       "map (\<lambda>a. py_int (last_part CHR ''_'' a))
             (filter (\<lambda>a. CHR ''_'' \<in> set a) (md_predictors md)) = map Some ns"
       "df' = foldl (\<lambda>d alt. if set alt \<subseteq> set (labels d)
                               then rename_cols d alt
                                      (filter (\<lambda>a. CHR ''_'' \<in> set a) (md_predictors md))
                               else d)
                      df
                      [ints,
                       map (\<lambda>a. CStr (last_part CHR ''_'' a))
                         (filter (\<lambda>a. CHR ''_'' \<in> set a) (md_predictors md)),
                       map (\<lambda>a. CStr (CHR ''R'' # last_part CHR ''_'' a))
                         (filter (\<lambda>a. CHR ''_'' \<in> set a) (md_predictors md))]"
    and r: "reconcile (md_predictors md) df
           = (lg, if set (map CStr (md_predictors md)) \<subseteq> set (labels df') then Inr df'
                  else Inl (Failed (MissingPredictors (cols_not_found (md_predictors md) df'))))"
    and b: "set (cols_not_found (md_predictors md) df')
           = {p \<in> set (md_predictors md). CStr p \<notin> set (labels df')}"
       "sorted (cols_not_found (md_predictors md) df')"
       "distinct (cols_not_found (md_predictors md) df')"
       "nrows df' = nrows df"
       "map snd (columns df') = map snd (columns df)"
    by blast
  have s: "if set (map CStr (md_predictors md)) \<subseteq> set (labels df')
          then \<forall>cs. s_result (spare_test load_model writable st df_ref mdl_path save_csv
                                out_path) \<noteq> Inl (Failed (MissingPredictors cs))
          else s_result (spare_test load_model writable st df_ref mdl_path save_csv out_path)
               = Inl (Failed (MissingPredictors (cols_not_found (md_predictors md) df')))"
  proof (cases "set (map CStr (md_predictors md)) \<subseteq> set (labels df')")
    case False
    with r have "reconcile (md_predictors md) df
      = (lg, Inl (Failed (MissingPredictors (cols_not_found (md_predictors md) df'))))"
      by simp
    from spare_test_reconcile_failed [where load_model=load_model and mdl_path=mdl_path,
        OF assms(1,2) this] False
    show ?thesis by (simp add: halt_def)
  next
    case True
    with r have ok: "reconcile (md_predictors md) df = (lg, Inr df')" by simp
    have "s_result (spare_test load_model writable st df_ref mdl_path save_csv out_path)
            \<noteq> Inl (Failed (MissingPredictors cs))" for cs
      using assms(1,2) ok
      by (auto simp add: spare_test_def halt_def convert_categorical_test_def
            split: prod.splits sum.splits option.splits dest: replay_vars_failure)
    with True show ?thesis by simp
  qed
  from a r s b show ?thesis by blast
qed

lemma roi_101_suffixes:
  "filter (\<lambda>a. CHR ''_'' \<in> set a) [''ROI_101''] = [''ROI_101'']"
  "int_suffixes [''ROI_101''] = Inr [CInt 101]"
  by (simp_all add: suffix_examples bind_exc_def)

theorem spare_test_reconcile_witness:
  "(\<exists>lg. reconcile [''ROI_101''] (one_column (CStr ''101''))
           = (lg, Inr (one_column (CStr ''ROI_101''))))
   \<and> (\<exists>lg. reconcile [''ROI_101''] (one_column (CInt 101))
           = (lg, Inr (one_column (CStr ''ROI_101''))))
   \<and> s_result (spare_test (\<lambda>p. Inr (demo_mdl, demo_md [''ROI_101''])) (\<lambda>p. True)
                 [FrameObj (one_column (CStr ''Age''))] 0 ''m.pkl.gz'' False [])
       = Inl (Failed (MissingPredictors [''ROI_101'']))"
proof -
  let ?lm = "\<lambda>p::string. (Inr (demo_mdl, demo_md [''ROI_101'']) :: exc + mdl \<times> metaData)"
  have m: "?lm ''m.pkl.gz'' = Inr (demo_mdl, demo_md [''ROI_101''])" by simp
  have p: "md_predictors (demo_md [''ROI_101'']) = [''ROI_101'']"
    by (simp add: demo_md_def)
  have lab: "labels (one_column c) = [c]" for c
    by (simp add: labels_def one_column_def)
  have ren: "rename_cols (one_column c) [c] [''ROI_101''] = one_column (CStr ''ROI_101'')" for c
    by (simp add: rename_cols_def one_column_def)
  have cnf: "cols_not_found [''ROI_101''] (one_column c)
             = (if c = CStr ''ROI_101'' then [] else [''ROI_101''])" for c
    by (simp add: cols_not_found_def lab)
  have l: "load [FrameObj (one_column c)] 0 = Some (FrameObj (one_column c))" for c
    by (simp add: load_def)
  have n: "\<not> set (map CStr (md_predictors (demo_md [''ROI_101'']))) \<subseteq> set (labels (one_column c))"
    if "c \<noteq> CStr ''ROI_101''" for c
    using that by (auto simp add: p lab)
  have u: "\<not> list_ex (\<lambda>a. CHR ''_'' \<notin> set a)
               (cols_not_found (md_predictors (demo_md [''ROI_101''])) (one_column c))" for c
    by (simp add: p cnf)
  have i: "int_suffixes (filter (\<lambda>a. CHR ''_'' \<in> set a) (md_predictors (demo_md [''ROI_101''])))
           = Inr [CInt 101]"
    by (simp add: p suffix_examples bind_exc_def)
  have a: "\<exists>lg. reconcile [''ROI_101''] (one_column (CStr ''101''))
           = (lg, Inr (one_column (CStr ''ROI_101'')))"
    using spare_test_reconcile [where load_model="?lm" and mdl_path="''m.pkl.gz''"
        and writable="\<lambda>p. True" and save_csv=False and out_path="[]",
        OF m l n u i, of "CStr ''101''"]
    by (auto simp add: p roi_101_suffixes suffix_examples lab ren)
  have b: "\<exists>lg. reconcile [''ROI_101''] (one_column (CInt 101))
           = (lg, Inr (one_column (CStr ''ROI_101'')))"
    using spare_test_reconcile [where load_model="?lm" and mdl_path="''m.pkl.gz''"
        and writable="\<lambda>p. True" and save_csv=False and out_path="[]",
        OF m l n u i, of "CInt 101"]
    by (auto simp add: p roi_101_suffixes suffix_examples lab ren)
  have c: "s_result (spare_test ?lm (\<lambda>p. True)
                 [FrameObj (one_column (CStr ''Age''))] 0 ''m.pkl.gz'' False [])
       = Inl (Failed (MissingPredictors [''ROI_101'']))"
    using spare_test_reconcile [where load_model="?lm" and mdl_path="''m.pkl.gz''"
        and writable="\<lambda>p. True" and save_csv=False and out_path="[]",
        OF m l n u i, of "CStr ''Age''"]
    by (auto simp add: p roi_101_suffixes suffix_examples lab cnf)
  from a b c show ?thesis by blast
qed

subsection \<open>Scores, leakage masking and bias correction\<close>

























lemma reg_frame_ptid:
  "get_col reg_frame (CStr ''PTID'')
   = Some \<lparr>dtype = ''object'',
           cells = [Str ''PA'', Str ''PB'', Str ''PC'', Str ''PD'', Str ''PE'',
                    Str ''PF'', Str ''PG'', Str ''PH'', Str ''PI'', Str ''PJ'']\<rparr>"
  by (simp add: reg_frame_def get_col_def)


















subsection \<open>Grid refinement\<close>





lemma expspace_integers:
  "expspace (of_int \<lfloor>real_of_int a\<rfloor>, of_int \<lceil>real_of_int b\<rceil>)
   = expspace (of_int a, of_int b)"
  by simp



lemma search_grid_small:
  assumes "nrows df \<le> 1000" and "coarse_grid ty kern = Inr (Some g0)"
  shows "search_grid x ty df predictors to_predict groups kern = Inr g0"
  using assms by (simp add: search_grid_def bind_exc_def)












subsection \<open>Categorical encoding and its replay\<close>

lemma map_of_replace:
  "map_of (map (\<lambda>(k', v'). if k' = k then (k', v) else (k', v')) d) q
   = (if q = k then map_option (\<lambda>_. v) (map_of d q) else map_of d q)"
  by (induction d) auto

lemma get_col_set_col:
  "get_col (set_col df k col) q = (if q = k then Some col else get_col df q)"
proof (cases "k \<in> set (labels df)")
  case True
  then have "map_of (columns df) k \<noteq> None"
    by (simp add: labels_def map_of_eq_None_iff)
  with True show ?thesis
    by (auto simp add: get_col_def set_col_def map_of_replace)
next
  case False
  then have "map_of (columns df) k = None"
    by (simp add: labels_def map_of_eq_None_iff)
  with False show ?thesis
    by (auto simp add: get_col_def set_col_def map_add_def split: option.splits)
qed

lemma map_of_dict_set:
  "map_of (dict_set d k v) q = (if q = k then Some v else map_of d q)"
proof (cases "k \<in> set (map fst d)")
  case True
  then have "map_of d k \<noteq> None" by (simp add: map_of_eq_None_iff)
  with True show ?thesis by (auto simp add: dict_set_def map_of_replace)
next
  case False
  then have "map_of d k = None" by (simp add: map_of_eq_None_iff)
  with False show ?thesis
    by (auto simp add: dict_set_def map_add_def split: option.splits)
qed


lemma distinct_unique: "distinct (unique xs)"
  by (simp add: unique_def)


lemma select_cols_Inr:
  "select_cols df ns = Inr cs \<Longrightarrow> cs = map (\<lambda>n. (n, the (get_col df n))) ns"
  by (induction ns arbitrary: cs)
     (auto simp add: bind_exc_def split: option.splits sum.splits)

lemma filter_zip_map:
  "map fst (filter (\<lambda>(p, kc). P (snd kc)) (zip ps (map (\<lambda>p. (f p, g p)) ps)))
   = filter (\<lambda>p. P (g p)) ps"
  by (induction ps) auto

lemma var_categorical_Inr:
  assumes "var_categorical df ps = Inr vars"
  shows "vars = filter (\<lambda>p. dtype (the (get_col df (CStr p))) = ''object'') ps"
proof -
  from assms obtain cs where c: "select_cols df (map CStr ps) = Inr cs"
    and v: "vars = map fst (filter (\<lambda>(p, (k, c)). dtype c = ''object'') (zip ps cs))"
    by (auto simp add: var_categorical_def bind_exc_def split: sum.splits)
  from select_cols_Inr [OF c] have
    "cs = map (\<lambda>p. (CStr p, the (get_col df (CStr p)))) ps" by (simp add: comp_def)
  with v have "vars = map fst (filter (\<lambda>(p, kc). dtype (snd kc) = ''object'')
      (zip ps (map (\<lambda>p. (CStr p, the (get_col df (CStr p)))) ps)))"
    by (simp add: case_prod_unfold)
  then show ?thesis
    using filter_zip_map [where P="\<lambda>c. dtype c = ''object''" and f=CStr
        and g="\<lambda>p. the (get_col df (CStr p))" and ps=ps]
    by simp
qed

lemma encode_var_other:
  assumes "encode_var (df, d) w = Inr (df', d')" and "var \<noteq> w"
  shows "get_col df' (CStr var) = get_col df (CStr var)" and "map_of d' var = map_of d var"
  using assms
  by (auto simp add: encode_var_def Let_def get_col_set_col map_of_dict_set
        split: option.splits list.splits)

lemma encode_vars_other:
  "encode_vars (df, d) vars = Inr (df', d') \<Longrightarrow> var \<notin> set vars \<Longrightarrow>
   get_col df' (CStr var) = get_col df (CStr var) \<and> map_of d' var = map_of d var"
proof (induction vars arbitrary: df d)
  case Nil
  then show ?case by simp
next
  case (Cons w vars)
  from Cons.prems(1) obtain df1 d1 where
    s: "encode_var (df, d) w = Inr (df1, d1)" and r: "encode_vars (df1, d1) vars = Inr (df', d')"
    by (auto simp add: bind_exc_def split: sum.splits)
  from Cons.prems(2) have "var \<noteq> w" "var \<notin> set vars" by simp_all
  with Cons.IH [OF r] encode_var_other [OF s] show ?case by simp
qed

lemma encode_var_hit:
  assumes "encode_var (df, d) var = Inr (df', d')" and "get_col df (CStr var) = Some c"
    and "unique (cells c) = [u0, u1]"
  shows "get_col df' (CStr var) = Some (series_map [(u0, Num 1), (u1, Num 2)] c)"
    and "map_of d' var = Some (Some [(u0, Num 1), (u1, Num 2)])"
  using assms
  by (auto simp add: encode_var_def Let_def get_col_set_col map_of_dict_set)

lemma encode_vars_hit:
  "encode_vars (df, d) vars = Inr (df', d') \<Longrightarrow> distinct vars \<Longrightarrow> var \<in> set vars \<Longrightarrow>
   get_col df (CStr var) = Some c \<Longrightarrow> unique (cells c) = [u0, u1] \<Longrightarrow>
   get_col df' (CStr var) = Some (series_map [(u0, Num 1), (u1, Num 2)] c)
   \<and> map_of d' var = Some (Some [(u0, Num 1), (u1, Num 2)])"
proof (induction vars arbitrary: df d)
  case Nil
  then show ?case by simp
next
  case (Cons w vars)
  from Cons.prems(1) obtain df1 d1 where
    s: "encode_var (df, d) w = Inr (df1, d1)" and r: "encode_vars (df1, d1) vars = Inr (df', d')"
    by (auto simp add: bind_exc_def split: sum.splits)
  show ?case
  proof (cases "var = w")
    case True
    with Cons.prems(2) have "var \<notin> set vars" by simp
    from encode_vars_other [OF r this]
      encode_var_hit [OF s [folded True] Cons.prems(4,5)]
    show ?thesis by simp
  next
    case False
    with Cons.prems(3) have "var \<in> set vars" by simp
    moreover from Cons.prems(2) have "distinct vars" by simp
    moreover from encode_var_other(1) [OF s False] Cons.prems(4)
    have "get_col df1 (CStr var) = Some c" by simp
    ultimately show ?thesis using Cons.IH [OF r] Cons.prems(5) by blast
  qed
qed

lemma convert_categorical_train_hit:
  assumes "convert_categorical_train df predictors = Inr (df', cmap)"
    and "distinct predictors" and "var \<in> set predictors"
    and "get_col df (CStr var) = Some c" and "dtype c = ''object''"
    and "unique (cells c) = [u0, u1]"
  shows "get_col df' (CStr var) = Some (series_map [(u0, Num 1), (u1, Num 2)] c)"
    and "map_of cmap var = Some (Some [(u0, Num 1), (u1, Num 2)])"
proof -
  from assms(1) obtain vars where v: "var_categorical df predictors = Inr vars"
    and e: "encode_vars (df, fold (\<lambda>v d. dict_set d v None) vars []) vars = Inr (df', cmap)"
    by (auto simp add: convert_categorical_train_def bind_exc_def split: sum.splits)
  note vs = var_categorical_Inr [OF v]
  from vs assms(2) have d: "distinct vars" by simp
  from vs assms(3,4,5) have m: "var \<in> set vars" by simp
  from encode_vars_hit [OF e d m assms(4,6)]
  show "get_col df' (CStr var) = Some (series_map [(u0, Num 1), (u1, Num 2)] c)"
    and "map_of cmap var = Some (Some [(u0, Num 1), (u1, Num 2)])"
    by simp_all
qed








lemma reg_frame_sex:
  "get_col reg_frame (CStr ''Sex'')
   = Some \<lparr>dtype = ''object'',
           cells = [Str ''F'', Str ''M'', Str ''F'', Str ''M'', Str ''F'',
                    Str ''M'', Str ''F'', Str ''M'', Str ''F'', Str ''M'']\<rparr>"
  "get_col reg_frame (CStr ''ROI_1'') = Some \<lparr>dtype = ''float64'', cells = replicate 10 (Num 1)\<rparr>"
  "unique [Str ''F'', Str ''M'', Str ''F'', Str ''M'', Str ''F'',
           Str ''M'', Str ''F'', Str ''M'', Str ''F'', Str ''M''] = [Str ''F'', Str ''M'']"
  by (simp_all add: reg_frame_def get_col_def unique_def)

lemma reg_frame_encoded:
  "convert_categorical_train reg_frame [''Sex'', ''ROI_1'']
   = Inr (set_col reg_frame (CStr ''Sex'')
            (series_map sex_map
               \<lparr>dtype = ''object'',
                 cells = [Str ''F'', Str ''M'', Str ''F'', Str ''M'', Str ''F'',
                          Str ''M'', Str ''F'', Str ''M'', Str ''F'', Str ''M'']\<rparr>),
          [(''Sex'', Some sex_map)])"
  by (simp add: convert_categorical_train_def var_categorical_def bind_exc_def reg_frame_sex
        encode_var_def dict_set_def sex_map_def Let_def)





subsection \<open>What the calls do to the caller's objects\<close>

lemma load_update:
  "load (st[cur := v]) r = (if r = cur \<and> cur < length st then Some v else load st r)"
  by (auto simp add: load_def)

lemma load_append:
  "r < length st \<Longrightarrow> load (st @ [v]) r = load st r"
  by (simp add: load_def nth_append)

lemma stop_fields:
  "t_store (stop st lg f) = st" "t_result (stop st lg f) = Inl f"
  by (simp_all add: stop_def)

lemma train_model_success:
  assumes "t_result (train_model x st lg cur df ps tp pg ty gr k sv op mn) = Inr (mo, md)"
  shows "\<exists>df1 cmap out.
           convert_categorical_train df ps = Inr (df1, cmap)
           \<and> fit x ty df1 ps tp gr k = Inr out
           \<and> length (o_predicted out) = nrows df1
           \<and> t_store (train_model x st lg cur df ps tp pg ty gr k sv op mn)
               = st[cur := FrameObj (set_col df1 (CStr ''predicted'')
                                       \<lparr>dtype = ''float64'', cells = o_predicted out\<rparr>)]
           \<and> md_predictors md = ps \<and> md_categorical_var_map md = Some cmap
           \<and> mo = o_mdl out"
proof (cases "get_col df (CStr ''Age'')")
  case None
  with assms show ?thesis by (simp add: train_model_def stop_def)
next
  case (Some age)
  show ?thesis
  proof (cases "age_range (cells age)")
    case (Inl e)
    with assms Some show ?thesis by (simp add: train_model_def stop_def)
  next
    case (Inr ages)
    show ?thesis
    proof (cases "convert_categorical_train df ps")
      case (Inl e)
      with assms Some Inr show ?thesis by (simp add: train_model_def stop_def)
    next
      case cv: (Inr p)
      obtain df1 cmap where p: "p = (df1, cmap)" by (cases p)
      show ?thesis
      proof (cases "fit x ty df1 ps tp gr k")
        case (Inl e)
        with assms Some Inr cv p show ?thesis by (simp add: train_model_def stop_def)
      next
        case ft: (Inr out)
        show ?thesis
        proof (cases "length (o_predicted out) = nrows df1")
          case False
          with assms Some Inr cv p ft show ?thesis by (simp add: train_model_def stop_def)
        next
          case True
          let ?df2 = "set_col df1 (CStr ''predicted'')
                        \<lparr>dtype = ''float64'', cells = o_predicted out\<rparr>"
          show ?thesis
          proof (cases "select_cols ?df2
             (unique (map CStr [''PTID'', ''Age'', ''Sex'', tp, ''predicted'']))")
            case (Inl e)
            with assms Some Inr cv p ft True show ?thesis
              by (simp add: train_model_def stop_def Let_def)
          next
            case sc: (Inr cvr)
            from assms Some Inr cv p ft True sc have
              "t_store (train_model x st lg cur df ps tp pg ty gr k sv op mn)
               = st[cur := FrameObj ?df2]
               \<and> md_predictors md = ps \<and> md_categorical_var_map md = Some cmap
               \<and> mo = o_mdl out"
              by (auto simp add: train_model_def stop_def Let_def split: if_splits)
            with cv p ft True show ?thesis by auto
          qed
        qed
      qed
    qed
  qed
qed

lemma train_model_store:
  "length (t_store (train_model x st lg cur df ps tp pg ty gr k sv op mn)) = length st
   \<and> (\<forall>r. r \<noteq> cur \<longrightarrow>
         t_store (train_model x st lg cur df ps tp pg ty gr k sv op mn) ! r = st ! r)"
  by (simp add: train_model_def stop_def Let_def
        split: option.splits sum.splits prod.splits)

lemma train_model_load:
  "r \<noteq> cur \<Longrightarrow>
   load (t_store (train_model x st lg cur df ps tp pg ty gr k sv op mn)) r = load st r"
  using train_model_store [of x st lg cur df ps tp pg ty gr k sv op mn]
  by (simp add: load_def)

lemma select_cols_total:
  "set ns \<subseteq> set (labels df) \<Longrightarrow> \<exists>cs. select_cols df ns = Inr cs"
proof (induction ns)
  case Nil
  then show ?case by simp
next
  case (Cons n ns)
  then obtain cs where cs: "select_cols df ns = Inr cs" by auto
  from Cons.prems have "n \<in> fst ` set (columns df)" by (simp add: labels_def)
  then have "map_of (columns df) n \<noteq> None" by (simp add: map_of_eq_None_iff)
  then obtain col where "get_col df n = Some col" by (auto simp add: get_col_def)
  with cs show ?case by (simp add: bind_exc_def)
qed

lemma train_filtered_eq:
  assumes "select_cols df (map CStr (remove1 tp ps)) = Inr pcs"
  shows "train_filtered x st lg df_ref pred_ref df ps tp pg ty gr k sv op mn
         = (if any_missing pcs then
              train_model x
                ((if tp \<in> set ps then st[pred_ref := ListObj (remove1 tp ps)] else st)
                   @ [FrameObj (filter_rows df (complete_rows (nrows df) pcs))])
                ((if tp \<in> set ps then lg @ [TargetInPredictors] else lg)
                   @ [InvalidPredictorRows])
                (length st)
                (filter_rows df (complete_rows (nrows df) pcs))
                (remove1 tp ps) tp pg ty gr k sv op mn
            else
              train_model x
                (if tp \<in> set ps then st[pred_ref := ListObj (remove1 tp ps)] else st)
                (if tp \<in> set ps then lg @ [TargetInPredictors] else lg)
                df_ref df (remove1 tp ps) tp pg ty gr k sv op mn)"
proof (cases "tp \<in> set ps")
  case True
  with assms show ?thesis by (simp add: train_filtered_def Let_def)
next
  case False
  then have "remove1 tp ps = ps" by (simp add: remove1_idem)
  with assms False show ?thesis by (simp add: train_filtered_def Let_def)
qed

lemma train_filtered_predictors:
  assumes "select_cols df (map CStr (remove1 tp ps)) = Inr pcs"
    and "load st pred_ref = Some (ListObj ps)" and "pred_ref \<noteq> df_ref"
  shows "load (t_store (train_filtered x st lg df_ref pred_ref df ps tp pg ty gr k sv op mn))
           pred_ref = Some (ListObj (remove1 tp ps))"
proof -
  from assms(2) have lt: "pred_ref < length st" by (simp add: load_def split: if_splits)
  let ?st1 = "if tp \<in> set ps then st[pred_ref := ListObj (remove1 tp ps)] else st"
  have l1: "load ?st1 pred_ref = Some (ListObj (remove1 tp ps))"
    using assms(2) lt by (simp add: load_update remove1_idem)
  have len: "length ?st1 = length st" by simp
  show ?thesis
  proof (cases "any_missing pcs")
    case True
    from lt have "pred_ref \<noteq> length st" by simp
    from train_model_load [OF this] True l1 lt len show ?thesis
      by (simp add: train_filtered_eq [OF assms(1)] load_append)
  next
    case False
    from train_model_load [OF assms(3)] False l1 show ?thesis
      by (simp add: train_filtered_eq [OF assms(1)])
  qed
qed

lemma train_filtered_frame_kept:
  assumes "select_cols df (map CStr (remove1 tp ps)) = Inr pcs"
    and "load st df_ref = Some (FrameObj df)" and "load st pred_ref = Some (ListObj ps)"
    and "any_missing pcs"
  shows "load (t_store (train_filtered x st lg df_ref pred_ref df ps tp pg ty gr k sv op mn))
           df_ref = Some (FrameObj df)"
proof -
  from assms(2) have lt: "df_ref < length st" by (simp add: load_def split: if_splits)
  from assms(2,3) have ne: "pred_ref \<noteq> df_ref" by auto
  let ?st1 = "if tp \<in> set ps then st[pred_ref := ListObj (remove1 tp ps)] else st"
  have l1: "load ?st1 df_ref = Some (FrameObj df)"
    using assms(2) ne by (simp add: load_update)
  have len: "length ?st1 = length st" by simp
  from lt have "df_ref \<noteq> length st" by simp
  from train_model_load [OF this] assms(4) l1 lt len show ?thesis
    by (simp add: train_filtered_eq [OF assms(1)] load_append)
qed

lemma train_filtered_frame_mutated:
  assumes "select_cols df (map CStr (remove1 tp ps)) = Inr pcs"
    and "load st df_ref = Some (FrameObj df)"
    and "\<not> any_missing pcs"
    and "t_result (train_filtered x st lg df_ref pred_ref df ps tp pg ty gr k sv op mn)
         = Inr (mo, md)"
  shows "\<exists>df1 cmap out.
           convert_categorical_train df (remove1 tp ps) = Inr (df1, cmap)
           \<and> fit x ty df1 (remove1 tp ps) tp gr k = Inr out
           \<and> length (o_predicted out) = nrows df1
           \<and> load (t_store (train_filtered x st lg df_ref pred_ref df ps tp pg ty gr k sv
                              op mn)) df_ref
               = Some (FrameObj (set_col df1 (CStr ''predicted'')
                                   \<lparr>dtype = ''float64'', cells = o_predicted out\<rparr>))
           \<and> md_predictors md = remove1 tp ps \<and> md_categorical_var_map md = Some cmap"
proof -
  from assms(2) have lt: "df_ref < length st" by (simp add: load_def split: if_splits)
  let ?st1 = "if tp \<in> set ps then st[pred_ref := ListObj (remove1 tp ps)] else st"
  let ?lg1 = "if tp \<in> set ps then lg @ [TargetInPredictors] else lg"
  have eq: "train_filtered x st lg df_ref pred_ref df ps tp pg ty gr k sv op mn
            = train_model x ?st1 ?lg1 df_ref df (remove1 tp ps) tp pg ty gr k sv op mn"
    using assms(3) by (simp add: train_filtered_eq [OF assms(1)])
  from assms(4) [unfolded eq] have
    "t_result (train_model x ?st1 ?lg1 df_ref df (remove1 tp ps) tp pg ty gr k sv op mn)
     = Inr (mo, md)" .
  from train_model_success [OF this] obtain df1 cmap out where
    s: "convert_categorical_train df (remove1 tp ps) = Inr (df1, cmap)"
       "fit x ty df1 (remove1 tp ps) tp gr k = Inr out"
       "length (o_predicted out) = nrows df1"
       "t_store (train_model x ?st1 ?lg1 df_ref df (remove1 tp ps) tp pg ty gr k sv op mn)
        = ?st1[df_ref := FrameObj (set_col df1 (CStr ''predicted'')
                                       \<lparr>dtype = ''float64'', cells = o_predicted out\<rparr>)]"
       "md_predictors md = remove1 tp ps" "md_categorical_var_map md = Some cmap"
    by blast
  from lt have "df_ref < length ?st1" by simp
  then have "load (?st1[df_ref := FrameObj (set_col df1 (CStr ''predicted'')
                                       \<lparr>dtype = ''float64'', cells = o_predicted out\<rparr>)]) df_ref
      = Some (FrameObj (set_col df1 (CStr ''predicted'')
                                   \<lparr>dtype = ''float64'', cells = o_predicted out\<rparr>))"
    by (simp only: load_update) simp
  with s show ?thesis unfolding eq by auto
qed

lemma spare_test_store:
  "take (length st) (s_store (spare_test load_model writable st df_ref mdl_path save_csv
                                out_path)) = st"
  by (simp add: spare_test_def halt_def
        split: sum.splits prod.splits option.splits obj.splits)

lemma nrows_set_col: "nrows (set_col df k col) = nrows df"
  by (simp add: set_col_def)

lemma labels_set_col: "k \<in> set (labels df) \<Longrightarrow> labels (set_col df k col) = labels df"
  by (auto simp add: set_col_def labels_def case_prod_unfold)

lemma reg_frame_cols:
  "nrows reg_frame = 10"
  "labels reg_frame = [CStr ''PTID'', CStr ''Age'', CStr ''Sex'', CStr ''y'', CStr ''ROI_1'']"
  "get_col reg_frame (CStr ''Age'')
   = Some \<lparr>dtype = ''float64'',
           cells = [Num 61, Num 62, Num 63, Num 64, Num 65,
                    Num 66, Num 67, Num 68, Num 69, Num 70]\<rparr>"
  by (simp_all add: reg_frame_def labels_def get_col_def)

lemma determine_type_reg:
  assumes "nrows df = 10"
    and "get_col df (CStr ''y'') = get_col reg_frame (CStr ''y'')"
    and "get_col df (CStr ''PTID'') = get_col reg_frame (CStr ''PTID'')"
  shows "determine_type df ''y'' (Str []) = ([SampleMayBeTooSmall], Inr (Regression, []))"
  using reg_frame_target(2)
  by (simp add: determine_type_def assms reg_frame_target(1) regression_checks_def
        reg_frame_ptid has_duplicates_def)

lemma demo_fit:
  assumes "nrows d \<le> 1000"
  shows "fit demo_ext Regression d ps tp gr k
         = Inr \<lparr>o_predicted = replicate (nrows d) (Num 0), o_mdl = demo_mdl, o_perf = [],
                o_params = []\<rparr>"
proof -
  from expspace_int_span [of "- 5" 5] obtain g where "expspace (- 5, 5) = Inr g" by simp
  with assms show ?thesis
    by (simp add: fit_def search_grid_def coarse_grid_def bind_exc_def svm_call_def
          demo_ext_def)
qed

lemma train_model_runs:
  assumes "get_col df (CStr ''Age'') = Some age" and "age_range (cells age) = Inr ages"
    and "convert_categorical_train df ps = Inr (df1, cmap)"
    and "fit x ty df1 ps tp gr k = Inr out"
    and "length (o_predicted out) = nrows df1"
    and "select_cols (set_col df1 (CStr ''predicted'')
                        \<lparr>dtype = ''float64'', cells = o_predicted out\<rparr>)
           (unique (map CStr [''PTID'', ''Age'', ''Sex'', tp, ''predicted''])) = Inr cv"
  shows "\<exists>md. t_result (train_model x st lg cur df ps tp pg ty gr k False op mn)
               = Inr (o_mdl out, md)"
  using assms by (simp add: train_model_def Let_def)

lemma demo_train_runs:
  "\<exists>md. t_result (spare_train demo_ext [FrameObj reg_frame, ListObj [''y'', ''Sex'', ''ROI_1'']]
                     0 1 ''y'' (Str []) ''linear'' False [] []) = Inr (demo_mdl, md)"
proof -
  let ?st = "[FrameObj reg_frame, ListObj [''y'', ''Sex'', ''ROI_1'']]"
  let ?c = "\<lparr>dtype = ''object'',
             cells = [Str ''F'', Str ''M'', Str ''F'', Str ''M'', Str ''F'',
                      Str ''M'', Str ''F'', Str ''M'', Str ''F'', Str ''M'']\<rparr>"
  let ?df1 = "set_col reg_frame (CStr ''Sex'') (series_map sex_map ?c)"
  let ?out = "\<lparr>o_predicted = replicate (nrows ?df1) (Num 0), o_mdl = demo_mdl,
               o_perf = [], o_params = []\<rparr>"
  have dt: "determine_type reg_frame ''y'' (Str [])
            = ([SampleMayBeTooSmall], Inr (Regression, []))"
    by (rule determine_type_reg) (simp_all add: reg_frame_cols)
  have sc: "select_cols reg_frame (map CStr (remove1 ''y'' [''y'', ''Sex'', ''ROI_1'']))
            = Inr [(CStr ''Sex'', ?c),
                   (CStr ''ROI_1'', \<lparr>dtype = ''float64'', cells = replicate 10 (Num 1)\<rparr>)]"
    by (simp add: reg_frame_sex bind_exc_def)
  have nm: "\<not> any_missing [(CStr ''Sex'', ?c),
                   (CStr ''ROI_1'', \<lparr>dtype = ''float64'', cells = replicate 10 (Num 1)\<rparr>)]"
    by (simp add: any_missing_def)
  have ar: "age_range [Num 61, Num 62, Num 63, Num 64, Num 65,
                       Num 66, Num 67, Num 68, Num 69, Num 70] = Inr (Num 61, Num 70)"
    by (simp add: age_range_def is_str_def numbers_def)
  have n1: "nrows ?df1 = 10" by (simp add: nrows_set_col reg_frame_cols)
  have ft: "fit demo_ext Regression ?df1 [''Sex'', ''ROI_1''] ''y'' [] ''linear'' = Inr ?out"
    by (rule demo_fit) (simp add: n1)
  have cv: "\<exists>cv. select_cols (set_col ?df1 (CStr ''predicted'')
                        \<lparr>dtype = ''float64'', cells = o_predicted ?out\<rparr>)
           (unique (map CStr [''PTID'', ''Age'', ''Sex'', ''y'', ''predicted''])) = Inr cv"
    by (simp add: unique_def get_col_set_col reg_frame_ptid reg_frame_cols
          reg_frame_target(1) bind_exc_def)
  then obtain cvr where cv': "select_cols (set_col ?df1 (CStr ''predicted'')
                        \<lparr>dtype = ''float64'', cells = o_predicted ?out\<rparr>)
           (unique (map CStr [''PTID'', ''Age'', ''Sex'', ''y'', ''predicted''])) = Inr cvr"
    by blast
  have len: "length (o_predicted ?out) = nrows ?df1" by simp
  from train_model_runs [OF reg_frame_cols(3) _ reg_frame_encoded ft len cv',
      where ages="(Num 61, Num 70)"] ar
  have "\<exists>md. t_result (train_model demo_ext (?st[1 := ListObj [''Sex'', ''ROI_1'']])
                 [SampleMayBeTooSmall, TargetInPredictors] 0 reg_frame [''Sex'', ''ROI_1'']
                 ''y'' (Str []) Regression [] ''linear'' False [] [])
               = Inr (o_mdl ?out, md)"
    by simp
  moreover have "spare_train demo_ext ?st 0 1 ''y'' (Str []) ''linear'' False [] []
      = train_model demo_ext (?st[1 := ListObj [''Sex'', ''ROI_1'']])
                 [SampleMayBeTooSmall, TargetInPredictors] 0 reg_frame [''Sex'', ''ROI_1'']
                 ''y'' (Str []) Regression [] ''linear'' False [] []"
    using sc nm
    by (simp add: spare_train_def load_def reg_frame_cols dt train_filtered_eq [OF sc])
  ultimately show ?thesis by simp
qed

lemma gap_frame_cols:
  "nrows gap_frame = 10"
  "labels gap_frame = labels reg_frame"
  "get_col gap_frame (CStr ''y'') = get_col reg_frame (CStr ''y'')"
  "get_col gap_frame (CStr ''PTID'') = get_col reg_frame (CStr ''PTID'')"
  "get_col gap_frame (CStr ''Sex'') = get_col reg_frame (CStr ''Sex'')"
  "get_col gap_frame (CStr ''ROI_1'')
   = Some \<lparr>dtype = ''float64'', cells = NaN # replicate 9 (Num 1)\<rparr>"
  by (simp_all add: gap_frame_def nrows_set_col labels_set_col get_col_set_col reg_frame_cols)

text \<open>
  C9. \<^verbatim>\<open>spare_train\<close> works on the caller's own objects. After validation the caller's
  predictor list is the list without the first occurrence of the target (unchanged when
  the target is no predictor). When a predictor cell is missing, \<^verbatim>\<open>df\<close> is rebound to a
  filtered copy and the caller's dataframe stays as it was. When none is missing and the
  call returns a model, the caller's dataframe has become the encoded frame with the
  column \<open>predicted\<close> added: its two-valued \<^verbatim>\<open>object\<close> predictor columns hold the codes 1
  and 2. \<^verbatim>\<open>spare_test\<close> copies its input: every object of the caller's store, the
  dataframe included, is as before.
\<close>

theorem spare_train_mutates_arguments:
  assumes "load st df_ref = Some (FrameObj df)"
    and "load st pred_ref = Some (ListObj predictors)"
    and "set (map CStr predictors) \<subseteq> set (labels df)"
    and "determine_type df to_predict pos_group = (lg, Inr (ty, groups))"
  shows
    "\<exists>pcs.
       select_cols df (map CStr (remove1 to_predict predictors)) = Inr pcs
       \<and> load (t_store (spare_train x st df_ref pred_ref to_predict pos_group kern save_mdl
                           out_path mdl_name)) pred_ref
           = Some (ListObj (remove1 to_predict predictors))
       \<and> (distinct predictors \<longrightarrow> to_predict \<notin> set (remove1 to_predict predictors))
       \<and> (any_missing pcs \<longrightarrow>
             load (t_store (spare_train x st df_ref pred_ref to_predict pos_group kern
                              save_mdl out_path mdl_name)) df_ref
             = Some (FrameObj df))
       \<and> (\<not> any_missing pcs \<longrightarrow>
             (\<forall>mo md.
                t_result (spare_train x st df_ref pred_ref to_predict pos_group kern save_mdl
                            out_path mdl_name) = Inr (mo, md)
                \<longrightarrow> (\<exists>df1 cmap out.
                       convert_categorical_train df (remove1 to_predict predictors)
                         = Inr (df1, cmap)
                       \<and> fit x ty df1 (remove1 to_predict predictors) to_predict groups kern
                           = Inr out
                       \<and> load (t_store (spare_train x st df_ref pred_ref to_predict pos_group
                                          kern save_mdl out_path mdl_name)) df_ref
                           = Some (FrameObj
                                (set_col df1 (CStr ''predicted'')
                                   \<lparr>dtype = ''float64'', cells = o_predicted out\<rparr>))
                       \<and> get_col (set_col df1 (CStr ''predicted'')
                                     \<lparr>dtype = ''float64'', cells = o_predicted out\<rparr>)
                             (CStr ''predicted'')
                           = Some \<lparr>dtype = ''float64'', cells = o_predicted out\<rparr>
                       \<and> (\<forall>var c u0 u1.
                             distinct (remove1 to_predict predictors)
                             \<and> var \<in> set (remove1 to_predict predictors)
                             \<and> var \<noteq> ''predicted''
                             \<and> get_col df (CStr var) = Some c \<and> dtype c = ''object''
                             \<and> unique (cells c) = [u0, u1]
                             \<longrightarrow> get_col (set_col df1 (CStr ''predicted'')
                                     \<lparr>dtype = ''float64'', cells = o_predicted out\<rparr>)
                                   (CStr var)
                                 = Some (series_map [(u0, Num 1), (u1, Num 2)] c)))))
       \<and> take (length st)
            (s_store (spare_test load_model writable st df_ref mdl_path save_csv out_dir))
           = st
       \<and> load (s_store (spare_test load_model writable st df_ref mdl_path save_csv out_dir))
            df_ref = Some (FrameObj df)"
proof -
  let ?ps1 = "remove1 to_predict predictors"
  let ?T = "spare_train x st df_ref pred_ref to_predict pos_group kern save_mdl
              out_path mdl_name"
  let ?S = "spare_test load_model writable st df_ref mdl_path save_csv out_dir"
  have "set (map CStr ?ps1) \<subseteq> set (labels df)"
    using assms(3) set_remove1_subset [of to_predict predictors] by auto
  from select_cols_total [OF this] obtain pcs where
    pcs: "select_cols df (map CStr ?ps1) = Inr pcs" by blast
  from assms(1,2) have ne: "pred_ref \<noteq> df_ref" by auto
  have T: "?T = train_filtered x st lg df_ref pred_ref df predictors to_predict
                  pos_group ty groups kern save_mdl out_path mdl_name"
    using assms by (simp add: spare_train_def)
  have p: "load (t_store ?T) pred_ref = Some (ListObj ?ps1)"
    unfolding T by (rule train_filtered_predictors [OF pcs assms(2) ne])
  have d: "distinct predictors \<longrightarrow> to_predict \<notin> set ?ps1" by simp
  have k: "any_missing pcs \<longrightarrow> load (t_store ?T) df_ref = Some (FrameObj df)"
    unfolding T using train_filtered_frame_kept [OF pcs assms(1,2)] by blast
  have m: "\<exists>df1 cmap out.
             convert_categorical_train df ?ps1 = Inr (df1, cmap)
             \<and> fit x ty df1 ?ps1 to_predict groups kern = Inr out
             \<and> load (t_store ?T) df_ref
                 = Some (FrameObj (set_col df1 (CStr ''predicted'')
                                     \<lparr>dtype = ''float64'', cells = o_predicted out\<rparr>))
             \<and> get_col (set_col df1 (CStr ''predicted'')
                           \<lparr>dtype = ''float64'', cells = o_predicted out\<rparr>)
                   (CStr ''predicted'')
                 = Some \<lparr>dtype = ''float64'', cells = o_predicted out\<rparr>
             \<and> (\<forall>var c u0 u1.
                   distinct ?ps1 \<and> var \<in> set ?ps1 \<and> var \<noteq> ''predicted''
                   \<and> get_col df (CStr var) = Some c \<and> dtype c = ''object''
                   \<and> unique (cells c) = [u0, u1]
                   \<longrightarrow> get_col (set_col df1 (CStr ''predicted'')
                                 \<lparr>dtype = ''float64'', cells = o_predicted out\<rparr>)
                         (CStr var)
                       = Some (series_map [(u0, Num 1), (u1, Num 2)] c))"
    if nm: "\<not> any_missing pcs" and ok: "t_result ?T = Inr (mo, md)" for mo md
  proof -
    from train_filtered_frame_mutated [OF pcs assms(1) nm ok [unfolded T]]
    obtain df1 cmap out where
      s: "convert_categorical_train df ?ps1 = Inr (df1, cmap)"
         "fit x ty df1 ?ps1 to_predict groups kern = Inr out"
         "load (t_store ?T) df_ref
                 = Some (FrameObj (set_col df1 (CStr ''predicted'')
                                     \<lparr>dtype = ''float64'', cells = o_predicted out\<rparr>))"
      unfolding T by blast
    have g: "get_col (set_col df1 (CStr ''predicted'')
                           \<lparr>dtype = ''float64'', cells = o_predicted out\<rparr>)
                   (CStr ''predicted'')
                 = Some \<lparr>dtype = ''float64'', cells = o_predicted out\<rparr>"
      by (simp add: get_col_set_col)
    have e: "get_col (set_col df1 (CStr ''predicted'')
                                 \<lparr>dtype = ''float64'', cells = o_predicted out\<rparr>)
                         (CStr var)
                       = Some (series_map [(u0, Num 1), (u1, Num 2)] c)"
      if "distinct ?ps1 \<and> var \<in> set ?ps1 \<and> var \<noteq> ''predicted''
                   \<and> get_col df (CStr var) = Some c \<and> dtype c = ''object''
                   \<and> unique (cells c) = [u0, u1]" for var c u0 u1
    proof -
      from that have h: "distinct ?ps1" "var \<in> set ?ps1" "var \<noteq> ''predicted''"
        "get_col df (CStr var) = Some c" "dtype c = ''object''" "unique (cells c) = [u0, u1]"
        by blast+
      from convert_categorical_train_hit(1) [OF s(1) h(1,2,4,5,6)] h(3)
      show ?thesis by (simp add: get_col_set_col)
    qed
    from s g e show ?thesis by blast
  qed
  have t1: "take (length st) (s_store ?S) = st" by (rule spare_test_store)
  from assms(1) have lt: "df_ref < length st" by (simp add: load_def split: if_splits)
  then have "s_store ?S ! df_ref = take (length st) (s_store ?S) ! df_ref" by simp
  with t1 have "s_store ?S ! df_ref = st ! df_ref" by simp
  moreover from t1 have "length st \<le> length (s_store ?S)"
    by (metis length_take min.cobounded1)
  ultimately have t2: "load (s_store ?S) df_ref = Some (FrameObj df)"
    using assms(1) lt by (simp add: load_def split: if_splits)
  from pcs p d k m t1 t2 show ?thesis by blast
qed

theorem spare_train_mutates_arguments_witness:
  "load (t_store (spare_train demo_ext [FrameObj reg_frame, ListObj [''y'', ''Sex'', ''ROI_1'']]
                    0 1 ''y'' (Str []) ''linear'' False [] [])) 1
     = Some (ListObj [''Sex'', ''ROI_1''])
   \<and> (\<exists>md. t_result (spare_train demo_ext
                        [FrameObj reg_frame, ListObj [''y'', ''Sex'', ''ROI_1'']]
                        0 1 ''y'' (Str []) ''linear'' False [] []) = Inr (demo_mdl, md))
   \<and> (\<exists>f col.
         load (t_store (spare_train demo_ext
                          [FrameObj reg_frame, ListObj [''y'', ''Sex'', ''ROI_1'']]
                          0 1 ''y'' (Str []) ''linear'' False [] [])) 0
           = Some (FrameObj f)
         \<and> get_col f (CStr ''predicted'')
             = Some \<lparr>dtype = ''float64'', cells = replicate 10 (Num 0)\<rparr>
         \<and> get_col f (CStr ''Sex'') = Some col
         \<and> cells col = [Num 1, Num 2, Num 1, Num 2, Num 1, Num 2, Num 1, Num 2, Num 1, Num 2])
   \<and> load (t_store (spare_train demo_ext
                      [FrameObj gap_frame, ListObj [''y'', ''Sex'', ''ROI_1'']]
                      0 1 ''y'' (Str []) ''linear'' False [] [])) 0
       = Some (FrameObj gap_frame)
   \<and> load (s_store (spare_test (\<lambda>p. Inr (two_folds, demo_md [''ROI_1''])) (\<lambda>p. True)
                      [FrameObj reg_frame, ListObj [''y'', ''Sex'', ''ROI_1'']] 0
                      ''m.pkl.gz'' False [])) 0
       = Some (FrameObj reg_frame)"
proof -
  let ?ps = "[''y'', ''Sex'', ''ROI_1'']"
  let ?st = "[FrameObj reg_frame, ListObj ?ps]"
  let ?sg = "[FrameObj gap_frame, ListObj ?ps]"
  let ?T = "spare_train demo_ext ?st 0 1 ''y'' (Str []) ''linear'' False [] []"
  let ?c = "\<lparr>dtype = ''object'',
             cells = [Str ''F'', Str ''M'', Str ''F'', Str ''M'', Str ''F'',
                      Str ''M'', Str ''F'', Str ''M'', Str ''F'', Str ''M'']\<rparr>"
  have l: "load ?st 0 = Some (FrameObj reg_frame)" "load ?st 1 = Some (ListObj ?ps)"
    by (simp_all add: load_def)
  have lg: "load ?sg 0 = Some (FrameObj gap_frame)" "load ?sg 1 = Some (ListObj ?ps)"
    by (simp_all add: load_def)
  have s: "set (map CStr ?ps) \<subseteq> set (labels reg_frame)"
    by (simp add: reg_frame_cols)
  have sg: "set (map CStr ?ps) \<subseteq> set (labels gap_frame)"
    by (simp add: gap_frame_cols reg_frame_cols)
  have dt: "determine_type reg_frame ''y'' (Str [])
            = ([SampleMayBeTooSmall], Inr (Regression, []))"
    by (rule determine_type_reg) (simp_all add: reg_frame_cols)
  have dtg: "determine_type gap_frame ''y'' (Str [])
            = ([SampleMayBeTooSmall], Inr (Regression, []))"
    by (rule determine_type_reg) (simp_all add: gap_frame_cols)
  note t = spare_train_mutates_arguments [OF l s dt, where x=demo_ext and kern="''linear''"
      and save_mdl=False and out_path="[]" and mdl_name="[]"
      and load_model="\<lambda>p. Inr (two_folds, demo_md [''ROI_1''])" and writable="\<lambda>p. True"
      and mdl_path="''m.pkl.gz''" and save_csv=False and out_dir="[]"]
  note tg = spare_train_mutates_arguments [OF lg sg dtg, where x=demo_ext
      and kern="''linear''" and save_mdl=False and out_path="[]" and mdl_name="[]"
      and load_model="\<lambda>p. Inr (two_folds, demo_md [''ROI_1''])" and writable="\<lambda>p. True"
      and mdl_path="''m.pkl.gz''" and save_csv=False and out_dir="[]"]
  have sc: "select_cols reg_frame (map CStr (remove1 ''y'' ?ps))
            = Inr [(CStr ''Sex'', ?c),
                   (CStr ''ROI_1'', \<lparr>dtype = ''float64'', cells = replicate 10 (Num 1)\<rparr>)]"
    by (simp add: reg_frame_sex bind_exc_def)
  have nm: "\<not> any_missing [(CStr ''Sex'', ?c),
                   (CStr ''ROI_1'', \<lparr>dtype = ''float64'', cells = replicate 10 (Num 1)\<rparr>)]"
    by (simp add: any_missing_def)
  have scg: "select_cols gap_frame (map CStr (remove1 ''y'' ?ps))
            = Inr [(CStr ''Sex'', ?c),
                   (CStr ''ROI_1'', \<lparr>dtype = ''float64'', cells = NaN # replicate 9 (Num 1)\<rparr>)]"
    by (simp add: gap_frame_cols reg_frame_sex bind_exc_def)
  have mg: "any_missing [(CStr ''Sex'', ?c),
                   (CStr ''ROI_1'', \<lparr>dtype = ''float64'', cells = NaN # replicate 9 (Num 1)\<rparr>)]"
    by (simp add: any_missing_def)
  from demo_train_runs obtain md where r: "t_result ?T = Inr (demo_mdl, md)" by blast
  have a: "load (t_store ?T) 1 = Some (ListObj [''Sex'', ''ROI_1''])"
    using t by auto
  have u: "unique (cells ?c) = [Str ''F'', Str ''M'']" by (simp add: reg_frame_sex)
  have n1: "nrows (set_col reg_frame (CStr ''Sex'') (series_map sex_map ?c)) = 10"
    by (simp add: nrows_set_col reg_frame_cols)
  from t sc nm r obtain df1 cmap out where
    m: "convert_categorical_train reg_frame (remove1 ''y'' ?ps) = Inr (df1, cmap)"
       "fit demo_ext Regression df1 (remove1 ''y'' ?ps) ''y'' [] ''linear'' = Inr out"
       "load (t_store ?T) 0
        = Some (FrameObj (set_col df1 (CStr ''predicted'')
                            \<lparr>dtype = ''float64'', cells = o_predicted out\<rparr>))"
       "get_col (set_col df1 (CStr ''predicted'')
                   \<lparr>dtype = ''float64'', cells = o_predicted out\<rparr>) (CStr ''predicted'')
        = Some \<lparr>dtype = ''float64'', cells = o_predicted out\<rparr>"
       "\<forall>var c u0 u1.
           distinct (remove1 ''y'' ?ps) \<and> var \<in> set (remove1 ''y'' ?ps)
           \<and> var \<noteq> ''predicted''
           \<and> get_col reg_frame (CStr var) = Some c \<and> dtype c = ''object''
           \<and> unique (cells c) = [u0, u1]
           \<longrightarrow> get_col (set_col df1 (CStr ''predicted'')
                         \<lparr>dtype = ''float64'', cells = o_predicted out\<rparr>) (CStr var)
               = Some (series_map [(u0, Num 1), (u1, Num 2)] c)"
    by (auto simp del: remove1.simps)
  from m(1) reg_frame_encoded have df1: "df1 = set_col reg_frame (CStr ''Sex'')
      (series_map sex_map ?c)" by simp
  from m(2) demo_fit [of df1] n1 df1 have
    out: "o_predicted out = replicate 10 (Num 0)" by auto
  from m(5) [rule_format, of "''Sex''" ?c "Str ''F''" "Str ''M''"] u reg_frame_sex(1)
  have sx: "get_col (set_col df1 (CStr ''predicted'')
                         \<lparr>dtype = ''float64'', cells = o_predicted out\<rparr>) (CStr ''Sex'')
               = Some (series_map [(Str ''F'', Num 1), (Str ''M'', Num 2)] ?c)"
    by simp
  have cs: "cells (series_map [(Str ''F'', Num 1), (Str ''M'', Num 2)] ?c)
            = [Num 1, Num 2, Num 1, Num 2, Num 1, Num 2, Num 1, Num 2, Num 1, Num 2]"
    by (simp add: series_map_def)
  from m(3,4) out sx cs have b: "\<exists>f col.
         load (t_store ?T) 0 = Some (FrameObj f)
         \<and> get_col f (CStr ''predicted'')
             = Some \<lparr>dtype = ''float64'', cells = replicate 10 (Num 0)\<rparr>
         \<and> get_col f (CStr ''Sex'') = Some col
         \<and> cells col = [Num 1, Num 2, Num 1, Num 2, Num 1, Num 2, Num 1, Num 2, Num 1, Num 2]"
    by auto
  have c: "load (t_store (spare_train demo_ext ?sg 0 1 ''y'' (Str []) ''linear'' False [] []))
             0 = Some (FrameObj gap_frame)"
    using tg scg mg by (auto simp del: remove1.simps)
  have d: "load (s_store (spare_test (\<lambda>p. Inr (two_folds, demo_md [''ROI_1''])) (\<lambda>p. True)
                      ?st 0 ''m.pkl.gz'' False [])) 0 = Some (FrameObj reg_frame)"
    using t by blast
  from a r b c d show ?thesis by blast
qed

end
